theory Spec2Isabelle
  imports Complex_Main
begin

section \<open>JavaScript values\<close>

text \<open>
  The adapters, the field mapper and the structure detector work on values parsed from JSON
  (\<open>response.json()\<close>). A parsed value is \<open>null\<close>, a boolean, a number, a string, an array
  or a plain object; an object lists its entries in the order of \<open>Object.entries\<close>, each key
  once. Numbers are modelled as rationals, strings as lists of 8-bit characters: a character
  is a code unit from U+0000 to U+00FF, so the model speaks of text in Latin-1.
\<close>

datatype json =
    JNull
  | JBool bool
  | JNum rat
  | JStr string
  | JArr "json list"
  | JObj "(string \<times> json) list"

text \<open>
  The result of reading a property can also be \<open>undefined\<close>, or a member that the runtime
  supplies through a prototype (a method such as \<open>toString\<close>, the \<open>constructor\<close> function):
  \<open>Native\<close> stands for such a member, an object or function that is neither \<open>null\<close> nor
  \<open>undefined\<close>.
\<close>

datatype jsval = Undefined | Val json | Native nat

datatype js_error = TypeError

fun nullish :: "jsval \<Rightarrow> bool" where
  "nullish Undefined = True"
| "nullish (Val JNull) = True"
| "nullish _ = False"

text \<open>JavaScript truthiness: \<open>undefined\<close>, \<open>null\<close>, \<open>false\<close>, \<open>0\<close> and \<open>""\<close> are falsy.\<close>

fun truthy :: "jsval \<Rightarrow> bool" where
  "truthy Undefined = False"
| "truthy (Val JNull) = False"
| "truthy (Val (JBool b)) = b"
| "truthy (Val (JNum n)) = (n \<noteq> 0)"
| "truthy (Val (JStr s)) = (s \<noteq> [])"
| "truthy (Val (JArr _)) = True"
| "truthy (Val (JObj _)) = True"
| "truthy (Native _) = True"

subsection \<open>Characters and decimal numerals\<close>

definition isDigit :: "char \<Rightarrow> bool" where
  "isDigit c = (48 \<le> (of_char c :: nat) \<and> (of_char c :: nat) \<le> 57)"

definition digitVal :: "char \<Rightarrow> nat" where
  "digitVal c = of_char c - 48"

text \<open>\<open>parseInt\<close> on a string of decimal digits.\<close>

definition parseDigits :: "string \<Rightarrow> nat" where
  "parseDigits ds = foldl (\<lambda>a c. 10 * a + digitVal c) 0 ds"

fun decimal :: "nat \<Rightarrow> string" where
  "decimal n = (if n < 10 then [char_of (48 + n)] else decimal (n div 10) @ [char_of (48 + n mod 10)])"

declare decimal.simps [simp del]

text \<open>
  A canonical numeric string (\<open>"0"\<close>, \<open>"17"\<close>, not \<open>"017"\<close>) names an element of an array or
  a character of a string.
\<close>

definition canonIndex :: "string \<Rightarrow> nat option" where
  "canonIndex k =
     (if k \<noteq> [] \<and> list_all isDigit k \<and> (hd k \<noteq> CHR ''0'' \<or> length k = 1)
      then Some (parseDigits k) else None)"

subsection \<open>Reading a property\<close>

text \<open>
  The own data properties of a parsed value: the keys of an object, the elements and the
  \<open>length\<close> of an array, the characters and the \<open>length\<close> of a string.
\<close>

fun ownProp :: "json \<Rightarrow> string \<Rightarrow> json option" where
  "ownProp (JObj kvs) k = map_of kvs k"
| "ownProp (JArr xs) k =
     (if k = ''length'' then Some (JNum (of_nat (length xs)))
      else case canonIndex k of
             Some i \<Rightarrow> (if i < length xs then Some (xs ! i) else None)
           | None \<Rightarrow> None)"
| "ownProp (JStr s) k =
     (if k = ''length'' then Some (JNum (of_nat (length s)))
      else case canonIndex k of
             Some i \<Rightarrow> (if i < length s then Some (JStr [s ! i]) else None)
           | None \<Rightarrow> None)"
| "ownProp _ k = None"

text \<open>
  What a property that is not an own data property evaluates to depends on the JavaScript
  runtime (the members of \<open>Object.prototype\<close>, \<open>Array.prototype\<close>, \<open>String.prototype\<close> and so
  on, whose getters may raise). The runtime is a parameter of the model:
  \<open>inherited rt v k\<close> is the outcome of reading \<open>k\<close> on the non-nullish value \<open>v\<close> when \<open>k\<close>
  is not an own data property of \<open>v\<close>, and \<open>bigIndexKey rt n\<close> is \<open>String(n)\<close> for a number
  beyond \<open>2^53\<close>, where \<open>parseInt\<close> rounds. The prototypes of the parsed values have
  members with names only, none whose key is the string of a number: such a key reads as
  \<open>undefined\<close> unless it is an own property.
\<close>

record runtime =
  inherited :: "jsval \<Rightarrow> string \<Rightarrow> js_error + jsval"
  bigIndexKey :: "nat \<Rightarrow> string"

text \<open>\<open>v[k]\<close>: raises a \<open>TypeError\<close> on \<open>null\<close> and \<open>undefined\<close>.\<close>

fun getMember :: "runtime \<Rightarrow> jsval \<Rightarrow> string \<Rightarrow> js_error + jsval" where
  "getMember rt Undefined k = Inl TypeError"
| "getMember rt (Val JNull) k = Inl TypeError"
| "getMember rt (Val j) k =
     (case ownProp j k of
        Some x \<Rightarrow> Inr (Val x)
      | None \<Rightarrow> (if canonIndex k \<noteq> None then Inr Undefined else inherited rt (Val j) k))"
| "getMember rt (Native n) k = inherited rt (Native n) k"

text \<open>\<open>v?.[k]\<close>: \<open>undefined\<close> on \<open>null\<close> and \<open>undefined\<close>.\<close>

definition getOptional :: "runtime \<Rightarrow> jsval \<Rightarrow> string \<Rightarrow> js_error + jsval" where
  "getOptional rt v k = (if nullish v then Inr Undefined else getMember rt v k)"

text \<open>
  \<open>v?.[n]\<close> for the number \<open>n\<close> that \<open>parseInt\<close> returns on a string of digits: the key is
  \<open>String(n)\<close>. Up to \<open>2^53\<close> that is the decimal numeral of \<open>n\<close>. Beyond, the key is the
  string of a number of at least \<open>2^53\<close>: it can be a key of an object, but it names no
  element of an array and no character of a string, whose lengths are below \<open>2^32\<close>, and it
  is not \<open>length\<close>.
\<close>

definition getIndexed :: "runtime \<Rightarrow> jsval \<Rightarrow> nat \<Rightarrow> js_error + jsval" where
  "getIndexed rt v n =
     (if n \<le> 2 ^ 53 then getOptional rt v (decimal n)
      else case v of
             Val (JObj kvs) \<Rightarrow>
               Inr (case map_of kvs (bigIndexKey rt n) of Some x \<Rightarrow> Val x | None \<Rightarrow> Undefined)
           | Native k \<Rightarrow> inherited rt (Native k) (bigIndexKey rt n)
           | _ \<Rightarrow> Inr Undefined)"

section \<open>Field mapper of the custom adapter\<close>

subsection \<open>extractValue\<close>

text \<open>\<open>path.split('.')\<close>: never empty; the empty path gives one empty segment.\<close>

fun split_dot :: "string \<Rightarrow> string list" where
  "split_dot [] = [[]]"
| "split_dot (c # cs) =
     (if c = CHR ''.'' then [] # split_dot cs
      else case split_dot cs of
             w # ws \<Rightarrow> (c # w) # ws
           | [] \<Rightarrow> [[c]])"

text \<open>
  \<open>key.match(/^(.+)\[(\d+)\]$/)\<close>: the key ends with \<open>]\<close>, before it stands a non-empty run
  of digits, before that a \<open>[\<close>, and before that at least one character, none of them a
  line terminator (which \<open>.\<close> does not match). The digits hold no \<open>[\<close>, so the split is unique.
\<close>

definition lineTerminator :: "char \<Rightarrow> bool" where
  "lineTerminator c = (c = CHR 0x0A \<or> c = CHR 0x0D)"

definition arrayMatch :: "string \<Rightarrow> (string \<times> string) option" where
  "arrayMatch key =
     (if key \<noteq> [] \<and> last key = CHR '']'' then
        (let body = butlast key;
             ds = rev (takeWhile isDigit (rev body));
             pre = rev (dropWhile isDigit (rev body))
         in if ds \<noteq> [] \<and> pre \<noteq> [] \<and> last pre = CHR ''['' \<and> butlast pre \<noteq> []
               \<and> \<not> list_ex lineTerminator (butlast pre)
            then Some (butlast pre, ds) else None)
      else None)"

text \<open>The callback of \<open>reduce\<close>, with the \<open>TypeError\<close> it may raise.\<close>

definition extractStep :: "runtime \<Rightarrow> jsval \<Rightarrow> string \<Rightarrow> js_error + jsval" where
  "extractStep rt current key =
     (case arrayMatch key of
        Some (arrayKey, index) \<Rightarrow>
          (case getMember rt current arrayKey of
             Inl e \<Rightarrow> Inl e
           | Inr inner \<Rightarrow> getIndexed rt inner (parseDigits index))
      | None \<Rightarrow> getOptional rt current key)"

fun reduceSteps :: "runtime \<Rightarrow> jsval \<Rightarrow> string list \<Rightarrow> js_error + jsval" where
  "reduceSteps rt current [] = Inr current"
| "reduceSteps rt current (key # keys) =
     (case extractStep rt current key of
        Inl e \<Rightarrow> Inl e
      | Inr v \<Rightarrow> reduceSteps rt v keys)"

text \<open>\<open>extractValue\<close>: the \<open>catch\<close> turns every exception into \<open>undefined\<close>.\<close>

definition extractValue :: "runtime \<Rightarrow> jsval \<Rightarrow> string \<Rightarrow> jsval" where
  "extractValue rt obj path =
     (case reduceSteps rt obj (split_dot path) of
        Inl e \<Rightarrow> Undefined
      | Inr v \<Rightarrow> v)"

text \<open>A step of the walk fails: it raises, or it yields \<open>undefined\<close>.\<close>

definition lookupFails :: "runtime \<Rightarrow> jsval \<Rightarrow> string \<Rightarrow> bool" where
  "lookupFails rt current key =
     (case extractStep rt current key of Inl e \<Rightarrow> True | Inr v \<Rightarrow> v = Undefined)"

subsection \<open>validateResponse\<close>

text \<open>
  \<open>ApiFieldMapping\<close>; \<open>transform\<close>, \<open>defaultValue\<close> and \<open>required\<close> are optional
  (\<open>None\<close> is \<open>undefined\<close>).
\<close>

record ApiFieldMapping =
  sourceField :: string
  targetField :: string
  dataType :: string
  transform :: "string option"
  defaultValue :: "jsval option"
  required :: "bool option"

record ValidationError =
  field :: string
  message :: string
  severity :: string
  code :: string

definition missingError :: "ApiFieldMapping \<Rightarrow> ValidationError" where
  "missingError m =
     \<lparr>field = sourceField m,
      message = ''Required field '' @ [CHR 0x27] @ sourceField m @ [CHR 0x27] @ '' is missing'',
      severity = ''error'',
      code = ''MISSING_REQUIRED_FIELD''\<rparr>"

text \<open>
  The loop over \<open>mappings.filter(m => m.required)\<close>. \<open>extractValue\<close> catches every
  exception itself, so the \<open>catch\<close> of the loop body (\<open>FIELD_ACCESS_ERROR\<close>) is never
  entered.
\<close>

fun validateLoop ::
  "runtime \<Rightarrow> jsval \<Rightarrow> ApiFieldMapping list \<Rightarrow> ValidationError list \<Rightarrow> ValidationError list" where
  "validateLoop rt response [] errors = errors"
| "validateLoop rt response (mapping # rest) errors =
     (let v = extractValue rt response (sourceField mapping)
      in validateLoop rt response rest
           (if v = Undefined \<or> v = Val JNull then errors @ [missingError mapping] else errors))"

definition validateResponse :: "runtime \<Rightarrow> jsval \<Rightarrow> ApiFieldMapping list \<Rightarrow> ValidationError list" where
  "validateResponse rt response mappings =
     validateLoop rt response (filter (\<lambda>m. required m = Some True) mappings) []"

section \<open>Insertion-ordered maps and sets\<close>

text \<open>
  A JavaScript \<open>Map\<close> iterates in insertion order; \<open>set\<close> on a present key keeps its place.
  A \<open>Set\<close> is a list without duplicates, in insertion order.
\<close>

fun mapSet :: "'k \<Rightarrow> 'v \<Rightarrow> ('k \<times> 'v) list \<Rightarrow> ('k \<times> 'v) list" where
  "mapSet k v [] = [(k, v)]"
| "mapSet k v (p # ps) = (if fst p = k then (k, v) # ps else p # mapSet k v ps)"

definition mapDelete :: "'k \<Rightarrow> ('k \<times> 'v) list \<Rightarrow> ('k \<times> 'v) list" where
  "mapDelete k m = filter (\<lambda>p. fst p \<noteq> k) m"

definition setAdd :: "'a \<Rightarrow> 'a list \<Rightarrow> 'a list" where
  "setAdd x xs = (if x \<in> set xs then xs else xs @ [x])"

definition setDelete :: "'a \<Rightarrow> 'a list \<Rightarrow> 'a list" where
  "setDelete x xs = removeAll x xs"

section \<open>Provider catalog and adapter factory\<close>

text \<open>
  The fields of \<open>UserApiConfig\<close> that the factory and the connection manager read:
  \<open>id\<close>, \<open>providerId\<close> and \<open>credentials.apiKey\<close>.
\<close>

record UserApiConfig =
  configId :: string
  providerId :: string
  apiKey :: string

text \<open>
  An adapter instance is an object: \<open>ref\<close> is its identity, \<open>builtBy\<close> names the
  constructor that made it.
\<close>

record adapter =
  ref :: nat
  builtBy :: string

text \<open>
  \<open>registered\<close> is \<open>ApiAdapterRegistry.adapters\<close> (provider id to constructor),
  \<open>instances\<close> is \<open>ApiAdapterFactory.instances\<close>, \<open>nextRef\<close> the next fresh object identity.
\<close>

record factory =
  registered :: "(string \<times> string) list"
  instances :: "(string \<times> adapter) list"
  nextRef :: nat

text \<open>\<open>register\<close> stores the constructor and instantiates it once for the provider descriptor.\<close>

definition register :: "string \<Rightarrow> string \<Rightarrow> factory \<Rightarrow> factory" where
  "register pid ctor st = st\<lparr>registered := mapSet pid ctor (registered st), nextRef := Suc (nextRef st)\<rparr>"

text \<open>The static initialiser registers the three built-in adapters.\<close>

definition builtin :: factory where
  "builtin =
     register ''indian-api'' ''IndianApiAdapter''
       (register ''finnhub'' ''FinnhubAdapter''
         (register ''alpha-vantage'' ''AlphaVantageAdapter''
           \<lparr>registered = [], instances = [], nextRef = 0\<rparr>))"

definition createAdapter :: "string \<Rightarrow> factory \<Rightarrow> adapter option \<times> factory" where
  "createAdapter pid st =
     (case map_of (registered st) pid of
        Some ctor \<Rightarrow> (Some \<lparr>ref = nextRef st, builtBy = ctor\<rparr>, st\<lparr>nextRef := Suc (nextRef st)\<rparr>)
      | None \<Rightarrow> (None, st))"

definition cacheKey :: "UserApiConfig \<Rightarrow> string" where
  "cacheKey config = providerId config @ ''-'' @ configId config"

definition getAdapter :: "UserApiConfig \<Rightarrow> factory \<Rightarrow> adapter option \<times> factory" where
  "getAdapter config st =
     (case map_of (instances st) (cacheKey config) of
        Some a \<Rightarrow> (Some a, st)
      | None \<Rightarrow>
          (case createAdapter (providerId config) st of
             (Some a, st') \<Rightarrow> (Some a, st'\<lparr>instances := mapSet (cacheKey config) a (instances st')\<rparr>)
           | (None, st') \<Rightarrow> (None, st')))"

definition endsWith :: "string \<Rightarrow> string \<Rightarrow> bool" where
  "endsWith s suffix = (length suffix \<le> length s \<and> drop (length s - length suffix) s = suffix)"

text \<open>The \<open>for\<close> loop of \<open>clearCache\<close>: delete the first key that matches, then \<open>break\<close>.\<close>

fun deleteFirstMatch :: "(string \<Rightarrow> bool) \<Rightarrow> (string \<times> 'v) list \<Rightarrow> (string \<times> 'v) list" where
  "deleteFirstMatch p [] = []"
| "deleteFirstMatch p (e # es) = (if p (fst e) then es else e # deleteFirstMatch p es)"

text \<open>\<open>clearCache(configId?)\<close>: \<open>None\<close> is a call without argument; the empty string is falsy.\<close>

definition clearCache :: "string option \<Rightarrow> factory \<Rightarrow> factory" where
  "clearCache cid st =
     (case cid of
        Some c \<Rightarrow>
          (if c \<noteq> [] then st\<lparr>instances := deleteFirstMatch (\<lambda>key. endsWith key (''-'' @ c)) (instances st)\<rparr>
           else st\<lparr>instances := []\<rparr>)
      | None \<Rightarrow> st\<lparr>instances := []\<rparr>)"

section \<open>Connection manager\<close>

subsection \<open>State\<close>

record WebSocketConfig =
  url :: string
  protocols :: "string list option"
  reconnectInterval :: "int option"
  maxReconnectAttempts :: "int option"

datatype readyState = CONNECTING | OPEN | CLOSING | CLOSED

text \<open>
  A transport object with the variables its four event handlers close over
  (\<open>providerId\<close>, \<open>config\<close>, \<open>apiConfig\<close> of the \<open>connect\<close> call that made it).
\<close>

record socket =
  sockProvider :: string
  sockConfig :: WebSocketConfig
  sockApiConfig :: UserApiConfig
  sockState :: readyState

text \<open>
  A pending \<open>setTimeout\<close> of \<open>attemptReconnect\<close>: the variables its callback closes over
  and the delay in milliseconds.
\<close>

record timer =
  timerProvider :: string
  timerConfig :: WebSocketConfig
  timerApiConfig :: UserApiConfig
  timerAttempts :: nat
  timerDelay :: int

record WebSocketMessage =
  msgType :: string
  msgData :: jsval
  msgSymbol :: jsval
  msgTimestamp :: int

text \<open>
  The five maps of \<open>WebSocketManager\<close>, and the world around it: every transport made by
  \<open>new WebSocket\<close>, the timers that are pending, the frames passed to \<open>ws.send\<close> (before
  \<open>JSON.stringify\<close>), the handler calls made, the next fresh identity of a transport or
  timer, the URLs on which the \<open>WebSocket\<close> constructor raises, and the strings that stand
  for upper-case forms outside Latin-1 (see \<open>toUpperCase\<close> below). A handler is the
  identity of a function object. A transport and a timer handle are never falsy, so
  \<open>if (ws)\<close> and \<open>if (timer)\<close> test whether the map has an entry.
\<close>

record manager =
  connections :: "(string \<times> nat) list"
  subscriptions :: "(string \<times> string list) list"
  handlers :: "(string \<times> nat list) list"
  reconnectAttempts :: "(string \<times> nat) list"
  reconnectTimers :: "(string \<times> nat) list"
  sockets :: "(nat \<times> socket) list"
  timers :: "(nat \<times> timer) list"
  sent :: "(nat \<times> json) list"
  delivered :: "(nat \<times> WebSocketMessage) list"
  nextId :: nat
  rejectsUrl :: "string \<Rightarrow> bool"
  wideUpper :: "char \<Rightarrow> string"

definition newManager :: "(string \<Rightarrow> bool) \<Rightarrow> (char \<Rightarrow> string) \<Rightarrow> manager" where
  "newManager rejects wide =
     \<lparr>connections = [], subscriptions = [], handlers = [], reconnectAttempts = [],
      reconnectTimers = [], sockets = [], timers = [], sent = [], delivered = [],
      nextId = 0, rejectsUrl = rejects, wideUpper = wide\<rparr>"

subsection \<open>Strings\<close>

text \<open>
  \<open>toUpperCase\<close> on Latin-1. The letters \<open>a\<close> to \<open>z\<close> and U+00E0 to U+00FE (but for the
  division sign U+00F7) have their upper-case form 32 places below, and the sharp s U+00DF
  becomes \<open>SS\<close>. The upper-case forms of the micro sign U+00B5 and of U+00FF are U+039C and
  U+0178, outside Latin-1: \<open>wide c\<close> is the string that stands for the upper-case form of
  such a character \<open>c\<close>, a parameter of the model. Every other character stays as it is.
\<close>

definition upperChar :: "(char \<Rightarrow> string) \<Rightarrow> char \<Rightarrow> string" where
  "upperChar wide c =
     (let n = (of_char c :: nat)
      in if (97 \<le> n \<and> n \<le> 122) \<or> (224 \<le> n \<and> n \<le> 254 \<and> n \<noteq> 247) then [char_of (n - 32)]
         else if n = 223 then ''SS''
         else if n = 181 \<or> n = 255 then wide c
         else [c])"

definition toUpperCase :: "(char \<Rightarrow> string) \<Rightarrow> string \<Rightarrow> string" where
  "toUpperCase wide s = concat (map (upperChar wide) s)"

text \<open>
  \<open>toLowerCase\<close> on Latin-1: the letters \<open>A\<close> to \<open>Z\<close> and U+00C0 to U+00DE (but for the
  multiplication sign U+00D7) have their lower-case form 32 places above.
\<close>

definition lowerChar :: "char \<Rightarrow> char" where
  "lowerChar c =
     (let n = (of_char c :: nat)
      in if (65 \<le> n \<and> n \<le> 90) \<or> (192 \<le> n \<and> n \<le> 222 \<and> n \<noteq> 215) then char_of (n + 32) else c)"

definition toLowerCase :: "string \<Rightarrow> string" where
  "toLowerCase s = map lowerChar s"

fun joinWith :: "string \<Rightarrow> string list \<Rightarrow> string" where
  "joinWith sep [] = []"
| "joinWith sep [x] = x"
| "joinWith sep (x # y # ys) = x @ sep @ joinWith sep (y # ys)"

subsection \<open>Wire framing\<close>

definition authFrame :: "string \<Rightarrow> UserApiConfig \<Rightarrow> json" where
  "authFrame pid apiConfig =
     (if pid = ''finnhub'' then JObj [(''type'', JStr ''auth''), (''token'', JStr (apiKey apiConfig))]
      else if pid = ''alpha-vantage'' then
        JObj [(''type'', JStr ''authenticate''), (''apikey'', JStr (apiKey apiConfig))]
      else JObj [(''type'', JStr ''auth''), (''apiKey'', JStr (apiKey apiConfig))])"

definition authenticateConnection :: "nat \<Rightarrow> string \<Rightarrow> UserApiConfig \<Rightarrow> manager \<Rightarrow> manager" where
  "authenticateConnection ws pid apiConfig m = m\<lparr>sent := sent m @ [(ws, authFrame pid apiConfig)]\<rparr>"

text \<open>\<open>action\<close> is \<open>'subscribe'\<close> or \<open>'unsubscribe'\<close>; no caller sets \<open>channel\<close>.\<close>

definition subscriptionFrames :: "string \<Rightarrow> string \<Rightarrow> string list \<Rightarrow> json list" where
  "subscriptionFrames pid action symbols =
     (if pid = ''finnhub'' then
        map (\<lambda>symbol. JObj [(''type'', JStr action), (''symbol'', JStr symbol)]) symbols
      else if pid = ''alpha-vantage'' then
        [JObj [(''function'', JStr (if action = ''subscribe'' then ''SUBSCRIBE'' else ''UNSUBSCRIBE'')),
               (''symbols'', JStr (joinWith '','' symbols))]]
      else
        [JObj [(''action'', JStr action), (''symbols'', JArr (map JStr symbols)),
               (''channel'', JStr ''quotes'')]])"

definition sendSubscriptionMessage :: "nat \<Rightarrow> string \<Rightarrow> string \<Rightarrow> string list \<Rightarrow> manager \<Rightarrow> manager" where
  "sendSubscriptionMessage ws pid action symbols m =
     m\<lparr>sent := sent m @ map (\<lambda>f. (ws, f)) (subscriptionFrames pid action symbols)\<rparr>"

subsection \<open>Operations\<close>

definition setSockState :: "nat \<Rightarrow> readyState \<Rightarrow> manager \<Rightarrow> manager" where
  "setSockState ws st m =
     (case map_of (sockets m) ws of
        Some sock \<Rightarrow> m\<lparr>sockets := mapSet ws (sock\<lparr>sockState := st\<rparr>) (sockets m)\<rparr>
      | None \<Rightarrow> m)"

text \<open>\<open>ws.close(1000, ...)\<close>: a transport that is connecting or open starts closing.\<close>

definition closeSocket :: "nat \<Rightarrow> manager \<Rightarrow> manager" where
  "closeSocket ws m =
     (case map_of (sockets m) ws of
        Some sock \<Rightarrow>
          (if sockState sock = CONNECTING \<or> sockState sock = OPEN then setSockState ws CLOSING m else m)
      | None \<Rightarrow> m)"

definition disconnect :: "string \<Rightarrow> manager \<Rightarrow> manager" where
  "disconnect pid m =
     (let m1 = (case map_of (connections m) pid of
                  Some ws \<Rightarrow> (closeSocket ws m)\<lparr>connections := mapDelete pid (connections m)\<rparr>
                | None \<Rightarrow> m);
          m2 = (case map_of (reconnectTimers m1) pid of
                  Some t \<Rightarrow> m1\<lparr>timers := mapDelete t (timers m1),
                               reconnectTimers := mapDelete pid (reconnectTimers m1)\<rparr>
                | None \<Rightarrow> m1)
      in m2\<lparr>reconnectAttempts := mapDelete pid (reconnectAttempts m2)\<rparr>)"

text \<open>
  \<open>connect\<close> has no \<open>await\<close>: it runs to its end at once. The handlers it installs are
  \<open>onopen\<close>, \<open>onmessage\<close>, \<open>onclose\<close> and \<open>onerror\<close> below, applied to the new transport.
\<close>

definition connect :: "string \<Rightarrow> WebSocketConfig \<Rightarrow> UserApiConfig \<Rightarrow> manager \<Rightarrow> bool \<times> manager" where
  "connect pid config apiConfig m =
     (let m1 = (if map_of (connections m) pid \<noteq> None then disconnect pid m else m)
      in if rejectsUrl m1 (url config) then (False, m1)
         else (True,
               m1\<lparr>sockets := sockets m1 @
                      [(nextId m1, \<lparr>sockProvider = pid, sockConfig = config,
                                    sockApiConfig = apiConfig, sockState = CONNECTING\<rparr>)],
                  connections := mapSet pid (nextId m1) (connections m1),
                  nextId := Suc (nextId m1)\<rparr>))"

definition handlersOf :: "manager \<Rightarrow> string \<Rightarrow> nat list" where
  "handlersOf m pid = (case map_of (handlers m) pid of Some hs \<Rightarrow> hs | None \<Rightarrow> [])"

definition handleMessage :: "string \<Rightarrow> WebSocketMessage \<Rightarrow> manager \<Rightarrow> manager" where
  "handleMessage pid msg m =
     (case map_of (handlers m) pid of
        Some hs \<Rightarrow> m\<lparr>delivered := delivered m @ map (\<lambda>h. (h, msg)) hs\<rparr>
      | None \<Rightarrow> m)"

text \<open>The handler calls that one fan-out of \<open>msg\<close> makes.\<close>

definition fanOut :: "manager \<Rightarrow> string \<Rightarrow> WebSocketMessage \<Rightarrow> (nat \<times> WebSocketMessage) list" where
  "fanOut m pid msg = drop (length (delivered m)) (delivered (handleMessage pid msg m))"

text \<open>\<open>x || d\<close> for an optional number \<open>x\<close>: the default stands in for \<open>undefined\<close> and for \<open>0\<close>.\<close>

definition orDefault :: "int option \<Rightarrow> int \<Rightarrow> int" where
  "orDefault x d = (case x of Some n \<Rightarrow> (if n \<noteq> 0 then n else d) | None \<Rightarrow> d)"

text \<open>\<open>this.reconnectAttempts.get(providerId) || 0\<close>.\<close>

definition attemptsOf :: "manager \<Rightarrow> string \<Rightarrow> nat" where
  "attemptsOf m pid = (case map_of (reconnectAttempts m) pid of Some a \<Rightarrow> a | None \<Rightarrow> 0)"

definition attemptReconnect :: "string \<Rightarrow> WebSocketConfig \<Rightarrow> UserApiConfig \<Rightarrow> manager \<Rightarrow> manager" where
  "attemptReconnect pid config apiConfig m =
     (let attempts = attemptsOf m pid;
          maxAttempts = orDefault (maxReconnectAttempts config) 5
      in if int attempts \<ge> maxAttempts then m
         else
           (let interval = orDefault (reconnectInterval config) 5000;
                backoffInterval = interval * 2 ^ attempts
            in m\<lparr>timers := timers m @
                     [(nextId m, \<lparr>timerProvider = pid, timerConfig = config,
                                  timerApiConfig = apiConfig, timerAttempts = attempts,
                                  timerDelay = backoffInterval\<rparr>)],
                 reconnectTimers := mapSet pid (nextId m) (reconnectTimers m),
                 nextId := Suc (nextId m)\<rparr>))"

definition subscribe :: "string \<Rightarrow> string list \<Rightarrow> manager \<Rightarrow> manager" where
  "subscribe pid symbols m =
     (let existingSymbols = (case map_of (subscriptions m) pid of Some ss \<Rightarrow> ss | None \<Rightarrow> []);
          m1 = m\<lparr>subscriptions :=
                   mapSet pid
                     (foldl (\<lambda>ss symbol. setAdd (toUpperCase (wideUpper m) symbol) ss) existingSymbols symbols)
                     (subscriptions m)\<rparr>
      in case map_of (connections m1) pid of
           Some ws \<Rightarrow>
             (if map_option sockState (map_of (sockets m1) ws) = Some OPEN
              then sendSubscriptionMessage ws pid ''subscribe'' (map (toUpperCase (wideUpper m)) symbols) m1
              else m1)
         | None \<Rightarrow> m1)"

definition unsubscribe :: "string \<Rightarrow> string list \<Rightarrow> manager \<Rightarrow> manager" where
  "unsubscribe pid symbols m =
     (case map_of (subscriptions m) pid of
        Some existingSymbols \<Rightarrow>
          (let m1 = m\<lparr>subscriptions :=
                        mapSet pid
                          (foldl (\<lambda>ss symbol. setDelete (toUpperCase (wideUpper m) symbol) ss)
                             existingSymbols symbols)
                          (subscriptions m)\<rparr>
           in case map_of (connections m1) pid of
                Some ws \<Rightarrow>
                  (if map_option sockState (map_of (sockets m1) ws) = Some OPEN
                   then sendSubscriptionMessage ws pid ''unsubscribe''
                          (map (toUpperCase (wideUpper m)) symbols) m1
                   else m1)
              | None \<Rightarrow> m1)
      | None \<Rightarrow> m)"

definition addHandler :: "string \<Rightarrow> nat \<Rightarrow> manager \<Rightarrow> manager" where
  "addHandler pid handler m =
     (let hs = (case map_of (handlers m) pid of Some hs \<Rightarrow> hs | None \<Rightarrow> [])
      in m\<lparr>handlers := mapSet pid (setAdd handler hs) (handlers m)\<rparr>)"

definition removeHandler :: "string \<Rightarrow> nat \<Rightarrow> manager \<Rightarrow> manager" where
  "removeHandler pid handler m =
     (case map_of (handlers m) pid of
        Some hs \<Rightarrow> m\<lparr>handlers := mapSet pid (setDelete handler hs) (handlers m)\<rparr>
      | None \<Rightarrow> m)"

definition cleanup :: "manager \<Rightarrow> manager" where
  "cleanup m =
     (foldl (\<lambda>st pid. disconnect pid st) m (map fst (connections m)))\<lparr>handlers := [], subscriptions := []\<rparr>"

subsection \<open>Event handlers of a transport\<close>

definition onopen :: "nat \<Rightarrow> socket \<Rightarrow> manager \<Rightarrow> manager" where
  "onopen ws sock m =
     (let pid = sockProvider sock;
          m1 = m\<lparr>reconnectAttempts := mapSet pid 0 (reconnectAttempts m)\<rparr>;
          m2 = authenticateConnection ws pid (sockApiConfig sock) m1
      in case map_of (subscriptions m2) pid of
           Some symbols \<Rightarrow>
             (if symbols \<noteq> [] then sendSubscriptionMessage ws pid ''subscribe'' symbols m2 else m2)
         | None \<Rightarrow> m2)"

text \<open>\<open>parsed\<close> is the outcome of \<open>parseMessage\<close>; \<open>None\<close> when it raises (the frame is dropped).\<close>

definition onmessage :: "socket \<Rightarrow> WebSocketMessage option \<Rightarrow> manager \<Rightarrow> manager" where
  "onmessage sock parsed m =
     (case parsed of Some msg \<Rightarrow> handleMessage (sockProvider sock) msg m | None \<Rightarrow> m)"

definition onclose :: "socket \<Rightarrow> int \<Rightarrow> manager \<Rightarrow> manager" where
  "onclose sock closeCode m =
     (let pid = sockProvider sock;
          m1 = m\<lparr>connections := mapDelete pid (connections m)\<rparr>
      in if closeCode \<noteq> 1000 then attemptReconnect pid (sockConfig sock) (sockApiConfig sock) m1
         else m1)"

definition onerror :: "socket \<Rightarrow> int \<Rightarrow> manager \<Rightarrow> manager" where
  "onerror sock now m =
     handleMessage (sockProvider sock)
       \<lparr>msgType = ''error'',
        msgData = Val (JObj [(''error'', JStr ''WebSocket connection error'')]),
        msgSymbol = Undefined, msgTimestamp = now\<rparr> m"

text \<open>The callback of the reconnect timer.\<close>

definition timerCallback :: "timer \<Rightarrow> manager \<Rightarrow> manager" where
  "timerCallback t m =
     snd (connect (timerProvider t) (timerConfig t) (timerApiConfig t)
            (m\<lparr>reconnectAttempts := mapSet (timerProvider t) (timerAttempts t + 1) (reconnectAttempts m)\<rparr>))"

subsection \<open>Runs\<close>

text \<open>
  What can happen to a manager: a call of its interface, or an event of the world. A
  transport opens only while connecting, closes (with any close code) only once, and
  delivers frames only while open; a timer fires only while pending, and then is pending no
  more. An event that cannot happen leaves the state as it is.
\<close>

datatype action =
    Connect string WebSocketConfig UserApiConfig
  | Disconnect string
  | Subscribe string "string list"
  | Unsubscribe string "string list"
  | AddHandler string nat
  | RemoveHandler string nat
  | Cleanup
  | SocketOpens nat
  | SocketCloses nat int
  | SocketErrors nat int
  | FrameArrives nat "WebSocketMessage option"
  | TimerFires nat

fun step :: "manager \<Rightarrow> action \<Rightarrow> manager" where
  "step m (Connect pid config apiConfig) = snd (connect pid config apiConfig m)"
| "step m (Disconnect pid) = disconnect pid m"
| "step m (Subscribe pid symbols) = subscribe pid symbols m"
| "step m (Unsubscribe pid symbols) = unsubscribe pid symbols m"
| "step m (AddHandler pid h) = addHandler pid h m"
| "step m (RemoveHandler pid h) = removeHandler pid h m"
| "step m Cleanup = cleanup m"
| "step m (SocketOpens ws) =
     (case map_of (sockets m) ws of
        Some sock \<Rightarrow> (if sockState sock = CONNECTING then onopen ws sock (setSockState ws OPEN m) else m)
      | None \<Rightarrow> m)"
| "step m (SocketCloses ws closeCode) =
     (case map_of (sockets m) ws of
        Some sock \<Rightarrow> (if sockState sock \<noteq> CLOSED then onclose sock closeCode (setSockState ws CLOSED m) else m)
      | None \<Rightarrow> m)"
| "step m (SocketErrors ws now) =
     (case map_of (sockets m) ws of
        Some sock \<Rightarrow> (if sockState sock \<noteq> CLOSED then onerror sock now m else m)
      | None \<Rightarrow> m)"
| "step m (FrameArrives ws parsed) =
     (case map_of (sockets m) ws of
        Some sock \<Rightarrow> (if sockState sock = OPEN then onmessage sock parsed m else m)
      | None \<Rightarrow> m)"
| "step m (TimerFires t) =
     (case map_of (timers m) t of
        Some tm \<Rightarrow> timerCallback tm (m\<lparr>timers := mapDelete t (timers m)\<rparr>)
      | None \<Rightarrow> m)"

definition run :: "manager \<Rightarrow> action list \<Rightarrow> manager" where
  "run m as = foldl step m as"

section \<open>Built-in adapters\<close>

subsection \<open>Requests, responses and results\<close>

text \<open>
  \<open>v.name\<close> for a name that no prototype defines (\<open>tickerId\<close>, \<open>c\<close>, \<open>Global Quote\<close>, ...):
  the own property of an object, \<open>undefined\<close> on every other value, a \<open>TypeError\<close> on
  \<open>null\<close> and \<open>undefined\<close>.
\<close>

fun field :: "jsval \<Rightarrow> string \<Rightarrow> js_error + jsval" where
  "field Undefined k = Inl TypeError"
| "field (Val JNull) k = Inl TypeError"
| "field (Val (JObj kvs)) k = (case map_of kvs k of Some x \<Rightarrow> Inr (Val x) | None \<Rightarrow> Inr Undefined)"
| "field v k = Inr Undefined"

text \<open>\<open>v?.name\<close>.\<close>

definition fieldOpt :: "jsval \<Rightarrow> string \<Rightarrow> jsval" where
  "fieldOpt v k = (case field v k of Inl e \<Rightarrow> Undefined | Inr x \<Rightarrow> x)"

text \<open>\<open>a || b\<close>.\<close>

definition orElse :: "jsval \<Rightarrow> jsval \<Rightarrow> jsval" where
  "orElse a b = (if truthy a then a else b)"

text \<open>
  Numbers and dates of a result are floating-point and clock values; the model keeps the
  expression that computes each of them. None of these expressions can raise.
\<close>

datatype number =
    FromJson jsval
  | ParseFloat jsval
  | ParseInt jsval
  | Times number number
  | Minus number number
  | Divide number number

datatype date = DateOf jsval | DateOfSeconds jsval | CurrentTime

record StockQuote =
  quoteSymbol :: jsval
  quotePrice :: number
  quoteChange :: number
  quoteChangePercent :: number
  quoteVolume :: "number option"
  quoteHigh :: "number option"
  quoteLow :: "number option"
  quoteOpen :: "number option"
  quotePreviousClose :: "number option"
  quoteTimestamp :: date
  quoteCurrency :: string
  quoteExchange :: "string option"

text \<open>
  The message of a failure: a text of the adapter's own, or the message of an exception that
  the runtime or \<open>fetch\<close> raised (not modelled).
\<close>

datatype reason = Text string | RuntimeMessage

text \<open>
  What an operation gives: \<open>{success: true, data}\<close>, \<open>{success: false, error}\<close>, or a
  thrown \<open>ApiError\<close> with its code and message.
\<close>

datatype 'a outcome = Success 'a | Failure reason | Thrown string jsval

datatype param = PVal jsval | PSeconds int | PIsoDay int

record request =
  reqUrl :: string
  reqParams :: "(string \<times> param) list"
  reqHeaders :: "(string \<times> string) list"

text \<open>
  A response: its status and its body as \<open>response.json()\<close> reads it (\<open>None\<close>: the
  body is not JSON). \<open>fetch\<close> itself may reject.
\<close>

record response =
  status :: nat
  body :: "json option"

datatype fetched = Rejected | Responded response

definition ok :: "response \<Rightarrow> bool" where
  "ok r = (200 \<le> status r \<and> status r \<le> 299)"

text \<open>
  The white space and line terminators of JavaScript within Latin-1: tab, line feed,
  vertical tab, form feed, carriage return, space and the no-break space U+00A0.
\<close>

definition isSpace :: "char \<Rightarrow> bool" where
  "isSpace c =
     (c = CHR '' '' \<or> c = CHR 0x09 \<or> c = CHR 0x0A \<or> c = CHR 0x0B \<or> c = CHR 0x0C \<or> c = CHR 0x0D
      \<or> c = CHR 0xA0)"

definition trim :: "string \<Rightarrow> string" where
  "trim s = rev (dropWhile isSpace (rev (dropWhile isSpace s)))"

text \<open>
  \<open>validateSymbol\<close>, and with it every operation of an adapter, takes the parameter \<open>wide\<close>
  of \<open>toUpperCase\<close>.
\<close>

definition validateSymbol :: "(char \<Rightarrow> string) \<Rightarrow> string \<Rightarrow> string" where
  "validateSymbol wide symbol = trim (toUpperCase wide symbol)"

text \<open>\<open>buildUrl\<close> leaves out a parameter that is \<open>null\<close> or \<open>undefined\<close>.\<close>

definition buildUrl :: "string \<Rightarrow> (string \<times> param) list \<Rightarrow> (string \<times> string) list \<Rightarrow> request" where
  "buildUrl base params hdrs =
     \<lparr>reqUrl = base,
      reqParams = filter (\<lambda>p. snd p \<noteq> PVal Undefined \<and> snd p \<noteq> PVal (Val JNull)) params,
      reqHeaders = hdrs\<rparr>"

text \<open>The parsed body of what \<open>fetch\<close> gave; \<open>undefined\<close> when there is none.\<close>

definition bodyOf :: "fetched \<Rightarrow> jsval" where
  "bodyOf f =
     (case f of
        Responded r \<Rightarrow> (case body r of Some d \<Rightarrow> Val d | None \<Rightarrow> Undefined)
      | Rejected \<Rightarrow> Undefined)"

record QuoteRequest =
  symbol :: string

subsection \<open>getQuote\<close>

text \<open>
  Each \<open>getQuote\<close> makes one request and then runs its \<open>try\<close> block on what \<open>fetch\<close> gave.
  The \<open>catch\<close> rethrows an \<open>ApiError\<close> and turns any other exception into a failure.
  The \<open>rateLimit\<close> member that Finnhub adds to a success, read from two response headers,
  is left out.
\<close>

definition finnhubQuoteRequest :: "(char \<Rightarrow> string) \<Rightarrow> QuoteRequest \<Rightarrow> string \<Rightarrow> request" where
  "finnhubQuoteRequest wide req key =
     buildUrl ''https://finnhub.io/api/v1/quote''
       [(''symbol'', PVal (Val (JStr (validateSymbol wide (symbol req)))))]
       [(''X-Finnhub-Token'', key)]"

definition isZero :: "jsval \<Rightarrow> bool" where
  "isZero v = (v = Val (JNum 0))"

definition finnhubQuoteResult :: "(char \<Rightarrow> string) \<Rightarrow> QuoteRequest \<Rightarrow> fetched \<Rightarrow> StockQuote outcome" where
  "finnhubQuoteResult wide req f =
     (case f of
        Rejected \<Rightarrow> Failure RuntimeMessage
      | Responded r \<Rightarrow>
          if \<not> ok r then Thrown ''HTTP_ERROR'' (Val (JStr (''HTTP '' @ decimal (status r))))
          else case body r of
            None \<Rightarrow> Failure RuntimeMessage
          | Some d \<Rightarrow>
              (case field (Val d) ''error'' of
                 Inl e \<Rightarrow> Failure RuntimeMessage
               | Inr err \<Rightarrow>
                   if truthy err then Thrown ''API_ERROR'' err
                   else if isZero (fieldOpt (Val d) ''c'') \<and> isZero (fieldOpt (Val d) ''h'')
                           \<and> isZero (fieldOpt (Val d) ''l'')
                   then Thrown ''NO_DATA'' (Val (JStr ''No data available for symbol''))
                   else Success
                     \<lparr>quoteSymbol = Val (JStr (toUpperCase wide (symbol req))),
                      quotePrice = FromJson (fieldOpt (Val d) ''c''),
                      quoteChange = FromJson (fieldOpt (Val d) ''d''),
                      quoteChangePercent = FromJson (fieldOpt (Val d) ''dp''),
                      quoteVolume = None,
                      quoteHigh = Some (FromJson (fieldOpt (Val d) ''h'')),
                      quoteLow = Some (FromJson (fieldOpt (Val d) ''l'')),
                      quoteOpen = Some (FromJson (fieldOpt (Val d) ''o'')),
                      quotePreviousClose = Some (FromJson (fieldOpt (Val d) ''pc'')),
                      quoteTimestamp = DateOfSeconds (fieldOpt (Val d) ''t''),
                      quoteCurrency = ''USD'',
                      quoteExchange = None\<rparr>))"

definition finnhubGetQuote ::
  "(char \<Rightarrow> string) \<Rightarrow> (request \<Rightarrow> fetched) \<Rightarrow> QuoteRequest \<Rightarrow> string
     \<Rightarrow> StockQuote outcome \<times> request list" where
  "finnhubGetQuote wide net req key =
     (finnhubQuoteResult wide req (net (finnhubQuoteRequest wide req key)),
      [finnhubQuoteRequest wide req key])"

definition alphaVantageQuoteRequest :: "(char \<Rightarrow> string) \<Rightarrow> QuoteRequest \<Rightarrow> string \<Rightarrow> request" where
  "alphaVantageQuoteRequest wide req key =
     buildUrl ''https://www.alphavantage.co/query''
       [(''function'', PVal (Val (JStr ''GLOBAL_QUOTE''))),
        (''symbol'', PVal (Val (JStr (validateSymbol wide (symbol req))))),
        (''apikey'', PVal (Val (JStr key)))]
       []"

text \<open>\<open>s.replace('%', '')\<close>: the first \<open>%\<close> is dropped.\<close>

fun dropFirst :: "char \<Rightarrow> string \<Rightarrow> string" where
  "dropFirst c [] = []"
| "dropFirst c (x # xs) = (if x = c then xs else x # dropFirst c xs)"

text \<open>
  Alpha Vantage does not look at the status. \<open>quote['10. change percent'].replace\<close> raises
  unless that field is a string.
\<close>

definition alphaVantageQuoteResult :: "fetched \<Rightarrow> StockQuote outcome" where
  "alphaVantageQuoteResult f =
     (case f of
        Rejected \<Rightarrow> Failure RuntimeMessage
      | Responded r \<Rightarrow>
          (case body r of
             None \<Rightarrow> Failure RuntimeMessage
           | Some d \<Rightarrow>
               (case field (Val d) ''Error Message'' of
                  Inl e \<Rightarrow> Failure RuntimeMessage
                | Inr msg \<Rightarrow>
                    if truthy msg then Thrown ''INVALID_SYMBOL'' msg
                    else if truthy (fieldOpt (Val d) ''Note'')
                    then Thrown ''RATE_LIMIT_EXCEEDED'' (Val (JStr ''API call frequency limit reached''))
                    else let quote = fieldOpt (Val d) ''Global Quote'' in
                      if \<not> truthy quote
                      then Thrown ''NO_DATA'' (Val (JStr ''No data available for symbol''))
                      else (case fieldOpt quote ''10. change percent'' of
                              Val (JStr pct) \<Rightarrow>
                                Success
                                  \<lparr>quoteSymbol = fieldOpt quote ''01. symbol'',
                                   quotePrice = ParseFloat (fieldOpt quote ''05. price''),
                                   quoteChange = ParseFloat (fieldOpt quote ''09. change''),
                                   quoteChangePercent = ParseFloat (Val (JStr (dropFirst CHR ''%'' pct))),
                                   quoteVolume = Some (ParseInt (fieldOpt quote ''06. volume'')),
                                   quoteHigh = Some (ParseFloat (fieldOpt quote ''03. high'')),
                                   quoteLow = Some (ParseFloat (fieldOpt quote ''04. low'')),
                                   quoteOpen = Some (ParseFloat (fieldOpt quote ''02. open'')),
                                   quotePreviousClose = Some (ParseFloat (fieldOpt quote ''08. previous close'')),
                                   quoteTimestamp = DateOf (fieldOpt quote ''07. latest trading day''),
                                   quoteCurrency = ''USD'',
                                   quoteExchange = None\<rparr>
                            | _ \<Rightarrow> Failure RuntimeMessage))))"

definition alphaVantageGetQuote ::
  "(char \<Rightarrow> string) \<Rightarrow> (request \<Rightarrow> fetched) \<Rightarrow> QuoteRequest \<Rightarrow> string
     \<Rightarrow> StockQuote outcome \<times> request list" where
  "alphaVantageGetQuote wide net req key =
     (alphaVantageQuoteResult (net (alphaVantageQuoteRequest wide req key)),
      [alphaVantageQuoteRequest wide req key])"

definition indianApiHeaders :: "string \<Rightarrow> (string \<times> string) list" where
  "indianApiHeaders key = [(''Authorization'', ''Bearer '' @ key), (''Content-Type'', ''application/json'')]"

definition indianApiQuoteRequest :: "(char \<Rightarrow> string) \<Rightarrow> QuoteRequest \<Rightarrow> string \<Rightarrow> request" where
  "indianApiQuoteRequest wide req key =
     buildUrl ''https://indianapi.in/stock''
       [(''name'', PVal (Val (JStr (validateSymbol wide (symbol req)))))]
       (indianApiHeaders key)"

definition indianApiQuoteResult :: "(char \<Rightarrow> string) \<Rightarrow> QuoteRequest \<Rightarrow> fetched \<Rightarrow> StockQuote outcome" where
  "indianApiQuoteResult wide req f =
     (case f of
        Rejected \<Rightarrow> Failure RuntimeMessage
      | Responded r \<Rightarrow>
          if \<not> ok r then
            (if status r = 404 then Thrown ''INVALID_SYMBOL'' (Val (JStr ''Stock not found''))
             else Thrown ''HTTP_ERROR'' (Val (JStr (''HTTP '' @ decimal (status r)))))
          else case body r of
            None \<Rightarrow> Failure RuntimeMessage
          | Some d \<Rightarrow>
              (case field (Val d) ''tickerId'' of
                 Inl e \<Rightarrow> Failure RuntimeMessage
               | Inr tickerId \<Rightarrow>
                   if \<not> truthy tickerId
                   then Thrown ''NO_DATA'' (Val (JStr ''No data available for symbol''))
                   else let nse = fieldOpt (fieldOpt (Val d) ''currentPrice'') ''NSE'';
                            bse = fieldOpt (fieldOpt (Val d) ''currentPrice'') ''BSE'';
                            currentPrice = orElse nse bse;
                            percentChange = fieldOpt (Val d) ''percentChange''
                     in if \<not> truthy currentPrice
                        then Thrown ''NO_DATA'' (Val (JStr ''No price data available''))
                        else Success
                          \<lparr>quoteSymbol = orElse tickerId (Val (JStr (toUpperCase wide (symbol req)))),
                           quotePrice = FromJson currentPrice,
                           quoteChange =
                             (if truthy percentChange
                              then Divide (Times (FromJson currentPrice) (FromJson percentChange))
                                     (FromJson (Val (JNum 100)))
                              else FromJson (Val (JNum 0))),
                           quoteChangePercent = FromJson (orElse percentChange (Val (JNum 0))),
                           quoteVolume = Some (FromJson (Val (JNum 0))),
                           quoteHigh = Some (FromJson (orElse (fieldOpt (Val d) ''yearHigh'') (Val (JNum 0)))),
                           quoteLow = Some (FromJson (orElse (fieldOpt (Val d) ''yearLow'') (Val (JNum 0)))),
                           quoteOpen = Some (FromJson currentPrice),
                           quotePreviousClose =
                             Some (Times (FromJson currentPrice)
                                     (Minus (FromJson (Val (JNum 1)))
                                        (Divide (FromJson (orElse percentChange (Val (JNum 0))))
                                           (FromJson (Val (JNum 100)))))),
                           quoteTimestamp = CurrentTime,
                           quoteCurrency = ''INR'',
                           quoteExchange = Some (if truthy nse then ''NSE'' else ''BSE'')\<rparr>))"

definition indianApiGetQuote ::
  "(char \<Rightarrow> string) \<Rightarrow> (request \<Rightarrow> fetched) \<Rightarrow> QuoteRequest \<Rightarrow> string
     \<Rightarrow> StockQuote outcome \<times> request list" where
  "indianApiGetQuote wide net req key =
     (indianApiQuoteResult wide req (net (indianApiQuoteRequest wide req key)),
      [indianApiQuoteRequest wide req key])"

subsection \<open>getHistoricalData\<close>

text \<open>
  Times are milliseconds since the epoch; \<open>from\<close>, \<open>to\<close> and \<open>limit\<close> are optional.
  The interval arrives as a string: \<open>FinancialApiClient.getHistoricalData\<close> takes
  \<open>interval: string\<close> and passes it on \<open>as any\<close>.
\<close>

record HistoricalDataRequest =
  histSymbol :: string
  interval :: string
  fromTime :: "int option"
  toTime :: "int option"
  limit :: "int option"

text \<open>
  The members that every object literal inherits from \<open>Object.prototype\<close>: indexing a table
  written as an object literal with one of these names gives that member (a function, or
  the prototype itself for \<open>__proto__\<close>), not \<open>undefined\<close>.
\<close>

definition objectPrototypeKeys :: "string list" where
  "objectPrototypeKeys =
     [''constructor'', ''hasOwnProperty'', ''isPrototypeOf'', ''propertyIsEnumerable'',
      ''toLocaleString'', ''toString'', ''valueOf'', ''__proto__'',
      ''__defineGetter__'', ''__defineSetter__'', ''__lookupGetter__'', ''__lookupSetter__'']"

text \<open>\<open>table[key]\<close> for a table written as an object literal of strings.\<close>

definition tableLookup :: "(string \<times> string) list \<Rightarrow> string \<Rightarrow> jsval" where
  "tableLookup table key =
     (case map_of table key of
        Some v \<Rightarrow> Val (JStr v)
      | None \<Rightarrow> (if key \<in> set objectPrototypeKeys then Native 0 else Undefined))"

definition resolutionMap :: "(string \<times> string) list" where
  "resolutionMap =
     [(''1min'', ''1''), (''5min'', ''5''), (''15min'', ''15''), (''30min'', ''30''),
      (''1hour'', ''60''), (''1day'', ''D''), (''1week'', ''W''), (''1month'', ''M'')]"

definition functionMap :: "(string \<times> string) list" where
  "functionMap =
     [(''1min'', ''TIME_SERIES_INTRADAY''), (''5min'', ''TIME_SERIES_INTRADAY''),
      (''15min'', ''TIME_SERIES_INTRADAY''), (''30min'', ''TIME_SERIES_INTRADAY''),
      (''1hour'', ''TIME_SERIES_INTRADAY''), (''1day'', ''TIME_SERIES_DAILY''),
      (''1week'', ''TIME_SERIES_WEEKLY''), (''1month'', ''TIME_SERIES_MONTHLY'')]"

definition intervalMap :: "(string \<times> string) list" where
  "intervalMap =
     [(''1min'', ''1m''), (''5min'', ''5m''), (''15min'', ''15m''), (''30min'', ''30m''),
      (''1hour'', ''1h''), (''1day'', ''1d''), (''1week'', ''1w''), (''1month'', ''1M'')]"

definition unsupportedInterval :: "string \<Rightarrow> 'a outcome" where
  "unsupportedInterval i = Failure (Text (''Unsupported interval: '' @ i))"

text \<open>
  Each \<open>getHistoricalData\<close> looks the interval up, returns at once when the entry is falsy,
  and otherwise makes one request; \<open>after\<close> is the \<open>try\<close> block that normalises what
  \<open>fetch\<close> gave, \<open>now\<close> the clock. The result is paired with the requests made.
\<close>

definition finnhubGetHistoricalData ::
  "(char \<Rightarrow> string) \<Rightarrow> (request \<Rightarrow> fetched) \<Rightarrow> (fetched \<Rightarrow> 'a outcome) \<Rightarrow> int
     \<Rightarrow> HistoricalDataRequest \<Rightarrow> string \<Rightarrow> 'a outcome \<times> request list" where
  "finnhubGetHistoricalData wide net after now req key =
     (let resolution = tableLookup resolutionMap (interval req)
      in if \<not> truthy resolution then (unsupportedInterval (interval req), [])
         else
           (let to = (case toTime req of Some t \<Rightarrow> t | None \<Rightarrow> now);
                from = (case fromTime req of Some t \<Rightarrow> t | None \<Rightarrow> to - 30 * 24 * 60 * 60 * 1000);
                rq = buildUrl ''https://finnhub.io/api/v1/stock/candle''
                       [(''symbol'', PVal (Val (JStr (validateSymbol wide (histSymbol req))))),
                        (''resolution'', PVal resolution),
                        (''from'', PSeconds (from div 1000)),
                        (''to'', PSeconds (to div 1000))]
                       [(''X-Finnhub-Token'', key)]
            in (after (net rq), [rq])))"

definition alphaVantageGetHistoricalData ::
  "(char \<Rightarrow> string) \<Rightarrow> (request \<Rightarrow> fetched) \<Rightarrow> (fetched \<Rightarrow> 'a outcome)
     \<Rightarrow> HistoricalDataRequest \<Rightarrow> string \<Rightarrow> 'a outcome \<times> request list" where
  "alphaVantageGetHistoricalData wide net after req key =
     (let func = tableLookup functionMap (interval req)
      in if \<not> truthy func then (unsupportedInterval (interval req), [])
         else
           (let rq = buildUrl ''https://www.alphavantage.co/query''
                       ([(''function'', PVal func),
                         (''symbol'', PVal (Val (JStr (validateSymbol wide (histSymbol req))))),
                         (''apikey'', PVal (Val (JStr key)))]
                        @ (if func = Val (JStr ''TIME_SERIES_INTRADAY'')
                           then [(''interval'', PVal (Val (JStr (interval req))))] else []))
                       []
            in (after (net rq), [rq])))"

definition indianApiGetHistoricalData ::
  "(char \<Rightarrow> string) \<Rightarrow> (request \<Rightarrow> fetched) \<Rightarrow> (fetched \<Rightarrow> 'a outcome)
     \<Rightarrow> HistoricalDataRequest \<Rightarrow> string \<Rightarrow> 'a outcome \<times> request list" where
  "indianApiGetHistoricalData wide net after req key =
     (let iv = tableLookup intervalMap (interval req)
      in if \<not> truthy iv then (unsupportedInterval (interval req), [])
         else
           (let rq = buildUrl ''https://indianapi.in/historical''
                       ([(''symbol'', PVal (Val (JStr (validateSymbol wide (histSymbol req))))),
                         (''interval'', PVal iv)]
                        @ (case fromTime req of Some t \<Rightarrow> [(''from'', PIsoDay t)] | None \<Rightarrow> [])
                        @ (case toTime req of Some t \<Rightarrow> [(''to'', PIsoDay t)] | None \<Rightarrow> [])
                        @ (case limit req of
                             Some n \<Rightarrow> (if n \<noteq> 0 then [(''limit'', PVal (Val (JNum (of_int n))))] else [])
                           | None \<Rightarrow> []))
                       (indianApiHeaders key)
            in (after (net rq), [rq])))"

section \<open>Structure detector\<close>

subsection \<open>Patterns\<close>

text \<open>\<open>FIELD_PATTERNS\<close>, in the order \<open>Object.entries\<close> lists it.\<close>

definition FIELD_PATTERNS :: "(string \<times> string list) list" where
  "FIELD_PATTERNS =
     [(''symbol'', [''symbol'', ''ticker'', ''code'', ''stock_code'', ''instrument'']),
      (''price'', [''price'', ''last'', ''last_price'', ''current_price'', ''close'', ''ltp'', ''lastPrice'']),
      (''change'', [''change'', ''net_change'', ''price_change'', ''daily_change'']),
      (''changePercent'', [''change_percent'', ''percent_change'', ''pct_change'', ''change_pct'', ''percentage'']),
      (''volume'', [''volume'', ''vol'', ''total_volume'', ''traded_volume'']),
      (''high'', [''high'', ''day_high'', ''daily_high'', ''h'']),
      (''low'', [''low'', ''day_low'', ''daily_low'', ''l'']),
      (''open'', [''open'', ''open_price'', ''opening_price'', ''o'']),
      (''previousClose'', [''prev_close'', ''previous_close'', ''yesterday_close'', ''pc'']),
      (''name'', [''name'', ''company_name'', ''full_name'', ''companyName'']),
      (''description'', [''description'', ''about'', ''business_description'', ''summary'']),
      (''sector'', [''sector'', ''industry_sector'', ''gics_sector'']),
      (''industry'', [''industry'', ''sub_industry'', ''gics_industry'']),
      (''marketCap'', [''market_cap'', ''market_capitalization'', ''mcap'', ''marketCapitalization'']),
      (''employees'', [''employees'', ''employee_count'', ''total_employees'', ''workforce'']),
      (''website'', [''website'', ''web_url'', ''homepage'', ''url'']),
      (''title'', [''title'', ''headline'', ''subject'', ''header'']),
      (''summary'', [''summary'', ''description'', ''excerpt'', ''snippet'']),
      (''publishedAt'', [''published_at'', ''date'', ''timestamp'', ''created_at'', ''pub_date'']),
      (''source'', [''source'', ''publisher'', ''author'', ''provider'']),
      (''url'', [''url'', ''link'', ''href'', ''article_url'']),
      (''timestamp'', [''timestamp'', ''date'', ''time'', ''datetime'', ''t'']),
      (''close'', [''close'', ''closing_price'', ''c''])]"

fun startsWith :: "string \<Rightarrow> string \<Rightarrow> bool" where
  "startsWith s [] = True"
| "startsWith [] (p # ps) = False"
| "startsWith (c # cs) (p # ps) = (c = p \<and> startsWith cs ps)"

text \<open>\<open>s.includes(p)\<close>.\<close>

fun includesStr :: "string \<Rightarrow> string \<Rightarrow> bool" where
  "includesStr [] p = (p = [])"
| "includesStr (c # cs) p = (startsWith (c # cs) p \<or> includesStr cs p)"

definition isUpperLetter :: "char \<Rightarrow> bool" where
  "isUpperLetter c = (65 \<le> (of_char c :: nat) \<and> (of_char c :: nat) \<le> 90)"

text \<open>\<open>VALUE_PATTERNS.symbol\<close>, \<open>/^[A-Z]{1,8}$/\<close>.\<close>

definition symbolPattern :: "string \<Rightarrow> bool" where
  "symbolPattern s = (1 \<le> length s \<and> length s \<le> 8 \<and> list_all isUpperLetter s)"

text \<open>\<open>VALUE_PATTERNS.url\<close>, \<open>/^https?:\/\//\<close>.\<close>

definition urlPattern :: "string \<Rightarrow> bool" where
  "urlPattern s = (startsWith s ''http://'' \<or> startsWith s ''https://'')"

text \<open>\<open>n\<close> digits, then the rest.\<close>

fun digitsThen :: "nat \<Rightarrow> string \<Rightarrow> string option" where
  "digitsThen 0 s = Some s"
| "digitsThen (Suc n) [] = None"
| "digitsThen (Suc n) (c # cs) = (if isDigit c then digitsThen n cs else None)"

definition datePrefix :: "char \<Rightarrow> string \<Rightarrow> bool" where
  "datePrefix sep s =
     (case digitsThen 4 s of
        Some (c1 # r1) \<Rightarrow>
          (c1 = sep \<and>
           (case digitsThen 2 r1 of
              Some (c2 # r2) \<Rightarrow> (c2 = sep \<and> digitsThen 2 r2 \<noteq> None)
            | _ \<Rightarrow> False))
      | _ \<Rightarrow> False)"

text \<open>\<open>VALUE_PATTERNS.date\<close>, \<open>/^\d{4}-\d{2}-\d{2}|^\d{10,13}$|^\d{4}\/\d{2}\/\d{2}/\<close>.\<close>

definition datePattern :: "string \<Rightarrow> bool" where
  "datePattern s =
     (datePrefix CHR ''-'' s
      \<or> (10 \<le> length s \<and> length s \<le> 13 \<and> list_all isDigit s)
      \<or> datePrefix CHR ''/'' s)"

text \<open>
  Two library functions are parameters of the detector: \<open>Number.prototype.toString\<close>, and
  whether \<open>Date.parse\<close> accepts a string (which differs between runtimes outside the ISO
  format).
\<close>

record engine =
  numberToString :: "rat \<Rightarrow> string"
  dateParses :: "string \<Rightarrow> bool"

subsection \<open>Detected fields\<close>

datatype why =
    NameMatches string string
  | SymbolValue string
  | UrlValue string
  | PriceValue rat
  | VolumeValue rat

record candidate =
  candTarget :: string
  candConfidence :: rat
  candWhy :: why

record DetectedField =
  path :: string
  fieldValue :: jsval
  fieldType :: string
  possibleMappings :: "candidate list"

definition getValueType :: "engine \<Rightarrow> jsval \<Rightarrow> string" where
  "getValueType eng v =
     (case v of
        Val (JArr xs) \<Rightarrow> ''array''
      | Val JNull \<Rightarrow> ''object''
      | Val (JBool b) \<Rightarrow> ''boolean''
      | Val (JNum n) \<Rightarrow> ''number''
      | Val (JStr s) \<Rightarrow> (if datePattern s \<or> dateParses eng s then ''date'' else ''string'')
      | Val (JObj kvs) \<Rightarrow> ''object''
      | Native n \<Rightarrow> ''object''
      | Undefined \<Rightarrow> ''string'')"

definition nameCandidates :: "string \<Rightarrow> candidate list" where
  "nameCandidates fieldName =
     concat (map (\<lambda>(target, patterns).
        concat (map (\<lambda>pattern.
          if includesStr (toLowerCase fieldName) (toLowerCase pattern)
          then [\<lparr>candTarget = target,
                 candConfidence = (if toLowerCase fieldName = toLowerCase pattern then 9 / 10 else 7 / 10),
                 candWhy = NameMatches fieldName pattern\<rparr>]
          else []) patterns)) FIELD_PATTERNS)"

definition valueCandidates :: "engine \<Rightarrow> jsval \<Rightarrow> candidate list" where
  "valueCandidates eng v =
     (case v of
        Val (JStr s) \<Rightarrow>
          (if symbolPattern s
           then [\<lparr>candTarget = ''symbol'', candConfidence = 8 / 10, candWhy = SymbolValue s\<rparr>] else [])
          @ (if urlPattern s
             then [\<lparr>candTarget = ''url'', candConfidence = 9 / 10, candWhy = UrlValue s\<rparr>] else [])
      | Val (JNum n) \<Rightarrow>
          (if 0 < n \<and> n < 10000 \<and> CHR ''.'' \<in> set (numberToString eng n)
           then [\<lparr>candTarget = ''price'', candConfidence = 6 / 10, candWhy = PriceValue n\<rparr>] else [])
          @ (if 1000 < n \<and> n = of_int \<lfloor>n\<rfloor>
             then [\<lparr>candTarget = ''volume'', candConfidence = 5 / 10, candWhy = VolumeValue n\<rparr>] else [])
      | _ \<Rightarrow> [])"

text \<open>
  \<open>findPossibleMappings\<close>: the candidates by name, then those by value, sorted by falling
  confidence (the sort keeps the order of equals), the first three kept.
\<close>

definition findPossibleMappings :: "engine \<Rightarrow> string \<Rightarrow> jsval \<Rightarrow> candidate list" where
  "findPossibleMappings eng fieldName v =
     take 3 (sort_key (\<lambda>c. - candConfidence c) (nameCandidates fieldName @ valueCandidates eng v))"

text \<open>\<open>typeof item === 'object'\<close>.\<close>

fun typeofObject :: "json \<Rightarrow> bool" where
  "typeofObject JNull = True"
| "typeofObject (JArr xs) = True"
| "typeofObject (JObj kvs) = True"
| "typeofObject _ = False"

definition leaf :: "engine \<Rightarrow> string \<Rightarrow> string \<Rightarrow> json \<Rightarrow> DetectedField" where
  "leaf eng p name v =
     \<lparr>path = p, fieldValue = Val v, fieldType = getValueType eng (Val v),
      possibleMappings = findPossibleMappings eng name (Val v)\<rparr>"

text \<open>
  \<open>extractFields\<close>: \<open>traverse\<close> on a value, on the elements of an array (the first three)
  and on the entries of an object.
\<close>

fun traverse :: "engine \<Rightarrow> json \<Rightarrow> string \<Rightarrow> DetectedField list"
  and traverseItems :: "engine \<Rightarrow> json list \<Rightarrow> string \<Rightarrow> nat \<Rightarrow> DetectedField list"
  and traverseEntries :: "engine \<Rightarrow> (string \<times> json) list \<Rightarrow> string \<Rightarrow> DetectedField list" where
  "traverse eng (JArr xs) currentPath = traverseItems eng xs currentPath 0"
| "traverse eng (JObj kvs) currentPath = traverseEntries eng kvs currentPath"
| "traverse eng JNull currentPath = []"
| "traverse eng (JBool b) currentPath = []"
| "traverse eng (JNum n) currentPath = []"
| "traverse eng (JStr s) currentPath = []"
| "traverseItems eng [] currentPath i = []"
| "traverseItems eng (item # rest) currentPath i =
     (if i < 3 then
        (if typeofObject item then traverse eng item (currentPath @ ''['' @ decimal i @ '']'')
         else [leaf eng (currentPath @ ''['' @ decimal i @ '']'') currentPath item])
        @ traverseItems eng rest currentPath (Suc i)
      else [])"
| "traverseEntries eng [] currentPath = []"
| "traverseEntries eng (entry # rest) currentPath =
     (let newPath = (if currentPath \<noteq> [] then currentPath @ ''.'' @ fst entry else fst entry)
      in (if typeofObject (snd entry) \<and> snd entry \<noteq> JNull then traverse eng (snd entry) newPath
          else [leaf eng newPath (fst entry) (snd entry)])
         @ traverseEntries eng rest currentPath)"

definition extractFields :: "engine \<Rightarrow> jsval \<Rightarrow> DetectedField list" where
  "extractFields eng obj = (case obj of Val j \<Rightarrow> traverse eng j [] | _ \<Rightarrow> [])"

subsection \<open>Suggested mappings\<close>

definition getRequiredFields :: "string \<Rightarrow> string list" where
  "getRequiredFields t =
     (if t = ''quote'' then [''symbol'', ''price'', ''timestamp'']
      else if t = ''historical'' then [''timestamp'', ''open'', ''high'', ''low'', ''close'', ''volume'']
      else if t = ''profile'' then [''symbol'', ''name'']
      else if t = ''news'' then [''title'', ''publishedAt'', ''source'']
      else if t = ''search'' then [''symbol'']
      else [])"

definition isFieldRequired :: "string \<Rightarrow> string \<Rightarrow> bool" where
  "isFieldRequired f t = (f \<in> set (getRequiredFields t))"

text \<open>
  Whether \<open>parseFloat\<close> reads a number: after leading white space and an optional sign, a
  digit, a point before a digit, or \<open>Infinity\<close>.
\<close>

definition parsesAsNumber :: "string \<Rightarrow> bool" where
  "parsesAsNumber s =
     (let t = dropWhile isSpace s;
          u = (case t of c # cs \<Rightarrow> (if c = CHR ''+'' \<or> c = CHR ''-'' then cs else t) | [] \<Rightarrow> t)
      in case u of
           c # cs \<Rightarrow> isDigit c \<or> (c = CHR ''.'' \<and> (case cs of d # ds \<Rightarrow> isDigit d | [] \<Rightarrow> False))
                      \<or> startsWith u ''Infinity''
         | [] \<Rightarrow> False)"

definition suggestTransform :: "jsval \<Rightarrow> string \<Rightarrow> string" where
  "suggestTransform v t =
     (if t = ''string'' \<and> (case v of Val (JStr s) \<Rightarrow>
            s = toLowerCase s
            \<and> list_ex (\<lambda>pattern. includesStr (toLowerCase pattern) (toLowerCase s))
                 (case map_of FIELD_PATTERNS ''symbol'' of Some ps \<Rightarrow> ps | None \<Rightarrow> [])
          | _ \<Rightarrow> False)
      then ''uppercase''
      else if t = ''number'' \<and> (case v of Val (JStr s) \<Rightarrow> parsesAsNumber s | _ \<Rightarrow> False)
      then ''parse_float''
      else if t = ''date'' \<and> (case v of Val (JStr s) \<Rightarrow> True | _ \<Rightarrow> False)
      then ''parse_date''
      else if (case v of Val (JNum n) \<Rightarrow> \<bar>n\<bar> < 1 \<and> n \<noteq> 0 | _ \<Rightarrow> False)
      then ''multiply_100''
      else ''none'')"

text \<open>
  The candidate that \<open>generateMappings\<close> picks for a target: of the fields not used yet,
  every candidate for that target, sorted by falling confidence; the first one, if any.
\<close>

definition bestMatch :: "DetectedField list \<Rightarrow> string list \<Rightarrow> string \<Rightarrow> (candidate \<times> DetectedField) option" where
  "bestMatch detectedFields usedFields target =
     (case sort_key (\<lambda>cf. - candConfidence (fst cf))
             (concat (map (\<lambda>f. map (\<lambda>c. (c, f)) (filter (\<lambda>c. candTarget c = target) (possibleMappings f)))
                        (filter (\<lambda>f. path f \<notin> set usedFields) detectedFields))) of
        [] \<Rightarrow> None
      | b # rest \<Rightarrow> Some b)"

text \<open>The loop of \<open>generateMappings\<close> over the required fields.\<close>

fun generateLoop ::
  "DetectedField list \<Rightarrow> string \<Rightarrow> string list \<Rightarrow> ApiFieldMapping list \<Rightarrow> string list \<Rightarrow> ApiFieldMapping list" where
  "generateLoop detectedFields expectedType [] mappings usedFields = mappings"
| "generateLoop detectedFields expectedType (target # rest) mappings usedFields =
     (case bestMatch detectedFields usedFields target of
        Some (c, f) \<Rightarrow>
          (if candConfidence c > 5 / 10 then
             generateLoop detectedFields expectedType rest
               (mappings @
                  [\<lparr>sourceField = path f, targetField = target,
                    dataType = (if fieldType f = ''object'' then ''string'' else fieldType f),
                    transform = Some (suggestTransform (fieldValue f) (fieldType f)),
                    defaultValue = None,
                    required = Some (isFieldRequired target expectedType)\<rparr>])
               (setAdd (path f) usedFields)
           else generateLoop detectedFields expectedType rest mappings usedFields)
      | None \<Rightarrow> generateLoop detectedFields expectedType rest mappings usedFields)"

definition generateMappings :: "DetectedField list \<Rightarrow> string \<Rightarrow> ApiFieldMapping list" where
  "generateMappings detectedFields expectedType =
     generateLoop detectedFields expectedType (getRequiredFields expectedType) [] []"

definition calculateConfidence :: "ApiFieldMapping list \<Rightarrow> string" where
  "calculateConfidence mappings =
     (if mappings = [] then ''low''
      else let averageConfidence =
                 foldl (\<lambda>s m. s + (if required m = Some True then 1 else 1 / 2)) (0 :: rat) mappings
                   / of_nat (length mappings)
           in if averageConfidence > 8 / 10 then ''high''
              else if averageConfidence > 5 / 10 then ''medium''
              else ''low'')"

record DetectedApiStructure =
  endpoint :: string
  sampleOf :: jsval
  detectedFields :: "DetectedField list"
  suggestedMappings :: "ApiFieldMapping list"
  confidence :: string

definition detectStructure :: "engine \<Rightarrow> string \<Rightarrow> jsval \<Rightarrow> string \<Rightarrow> DetectedApiStructure" where
  "detectStructure eng ep sample expectedType =
     (let fields = extractFields eng sample;
          mappings = generateMappings fields expectedType
      in \<lparr>endpoint = ep, sampleOf = sample, detectedFields = fields,
          suggestedMappings = mappings, confidence = calculateConfidence mappings\<rparr>)"

section \<open>Sample inputs\<close>

text \<open>A runtime whose prototypes supply no member at all.\<close>

definition bareRuntime :: runtime where
  "bareRuntime = \<lparr>inherited = (\<lambda>v k. Inr Undefined), bigIndexKey = decimal\<rparr>"

definition requiredMapping :: "string \<Rightarrow> string \<Rightarrow> ApiFieldMapping" where
  "requiredMapping source target =
     \<lparr>sourceField = source, targetField = target, dataType = ''string'', transform = None,
      defaultValue = None, required = Some True\<rparr>"

definition optionalMapping :: "string \<Rightarrow> string \<Rightarrow> ApiFieldMapping" where
  "optionalMapping source target =
     \<lparr>sourceField = source, targetField = target, dataType = ''string'', transform = None,
      defaultValue = None, required = None\<rparr>"

text \<open>The response \<open>{"data": {"symbol": "AAPL", "price": null}, "items": [1, 2]}\<close>.\<close>

definition sampleResponse :: jsval where
  "sampleResponse =
     Val (JObj [(''data'', JObj [(''symbol'', JStr ''AAPL''), (''price'', JNull)]),
                (''items'', JArr [JNum 1, JNum 2])])"

text \<open>
  A catalog in which a fourth provider, \<open>finnhub-pro\<close>, has been registered, and two
  configurations whose cache keys are both \<open>finnhub-pro-1\<close>.
\<close>

definition extendedCatalog :: factory where
  "extendedCatalog = register ''finnhub-pro'' ''FinnhubProAdapter'' builtin"

definition configProOne :: UserApiConfig where
  "configProOne = \<lparr>configId = ''pro-1'', providerId = ''finnhub'', apiKey = ''key-a''\<rparr>"

definition configOne :: UserApiConfig where
  "configOne = \<lparr>configId = ''1'', providerId = ''finnhub-pro'', apiKey = ''key-b''\<rparr>"

text \<open>Two Finnhub configurations, with ids \<open>a-x\<close> and \<open>x\<close>.\<close>

definition configAX :: UserApiConfig where
  "configAX = \<lparr>configId = ''a-x'', providerId = ''finnhub'', apiKey = ''key-a''\<rparr>"

definition configX :: UserApiConfig where
  "configX = \<lparr>configId = ''x'', providerId = ''finnhub'', apiKey = ''key-b''\<rparr>"

text \<open>A realtime configuration with base interval 1000 ms and at most 3 attempts.\<close>

definition sampleWsConfig :: WebSocketConfig where
  "sampleWsConfig =
     \<lparr>url = ''wss://ws.finnhub.io'', protocols = None,
      reconnectInterval = Some 1000, maxReconnectAttempts = Some 3\<rparr>"

text \<open>A stand-in for the upper-case forms outside Latin-1: the character itself.\<close>

definition keepWide :: "char \<Rightarrow> string" where
  "keepWide c = [c]"

definition freshManager :: manager where
  "freshManager = newManager (\<lambda>u. False) keepWide"

text \<open>The value of an optional setting: the default when the setting is absent.\<close>

definition configured :: "int option \<Rightarrow> int \<Rightarrow> int" where
  "configured x d = (case x of Some n \<Rightarrow> n | None \<Rightarrow> d)"

text \<open>
  The transports of a provider in the plain run of \<open>n\<close> failed reconnects: each transport
  (\<open>0\<close>, \<open>2\<close>, ...) closes abnormally without having opened, and the timer that this close
  schedules (\<open>1\<close>, \<open>3\<close>, ...) fires.
\<close>

fun failedReconnects :: "nat \<Rightarrow> action list" where
  "failedReconnects 0 = []"
| "failedReconnects (Suc n) = failedReconnects n @ [SocketCloses (2 * n) 1006, TimerFires (2 * n + 1)]"

text \<open>
  The state of that run after \<open>n\<close> failed reconnects: no timer is pending, the counter of
  the provider is \<open>n\<close>, transport \<open>2n\<close> is connecting, and every transport was made for the
  provider with the configuration of the \<open>connect\<close> call.
\<close>

definition plainState ::
  "(string \<Rightarrow> bool) \<Rightarrow> string \<Rightarrow> WebSocketConfig \<Rightarrow> UserApiConfig \<Rightarrow> nat \<Rightarrow> manager \<Rightarrow> bool" where
  "plainState r pid config apiConfig n m =
     (timers m = [] \<and> nextId m = 2 * n + 1 \<and> attemptsOf m pid = n \<and> rejectsUrl m = r
      \<and> map_of (sockets m) (2 * n)
            = Some \<lparr>sockProvider = pid, sockConfig = config, sockApiConfig = apiConfig,
                     sockState = CONNECTING\<rparr>
      \<and> list_all (\<lambda>e. fst e < 2 * n + 1 \<and> sockProvider (snd e) = pid \<and> sockConfig (snd e) = config)
            (sockets m))"

text \<open>
  The attempt counter of a provider has reached the cap: no reconnect timer of the provider
  is pending, and every transport of the provider that has not closed yet was made with a
  cap, not 0, that the counter has reached.
\<close>

definition capReached :: "string \<Rightarrow> manager \<Rightarrow> bool" where
  "capReached pid m =
     (list_all (\<lambda>e. timerProvider (snd e) \<noteq> pid) (timers m)
      \<and> list_all (\<lambda>e. sockProvider (snd e) = pid \<and> sockState (snd e) \<noteq> CLOSED \<longrightarrow>
                         maxReconnectAttempts (sockConfig (snd e)) \<noteq> Some 0
                         \<and> configured (maxReconnectAttempts (sockConfig (snd e))) 5 \<le> int (attemptsOf m pid))
           (sockets m))"

text \<open>
  An action that is neither a call of \<open>connect\<close> or \<open>disconnect\<close> for the provider, nor
  \<open>cleanup\<close>, nor the opening of one of the provider's transports; and a run of such actions.
\<close>

fun leavesAlone :: "string \<Rightarrow> manager \<Rightarrow> action \<Rightarrow> bool" where
  "leavesAlone pid m (Connect p config apiConfig) = (p \<noteq> pid)"
| "leavesAlone pid m (Disconnect p) = (p \<noteq> pid)"
| "leavesAlone pid m Cleanup = False"
| "leavesAlone pid m (SocketOpens ws) =
     (case map_of (sockets m) ws of Some sock \<Rightarrow> sockProvider sock \<noteq> pid | None \<Rightarrow> True)"
| "leavesAlone pid m a = True"

fun leftAlone :: "string \<Rightarrow> manager \<Rightarrow> action list \<Rightarrow> bool" where
  "leftAlone pid m [] = True"
| "leftAlone pid m (a # as) = (leavesAlone pid m a \<and> leftAlone pid (step m a) as)"

text \<open>The registrations of every provider are free of duplicates.\<close>

definition handlerSets :: "manager \<Rightarrow> bool" where
  "handlerSets m = (\<forall>pid. distinct (handlersOf m pid))"

text \<open>
  The tree as the specification reads it: a segment names a key of an object or an index of
  an array, and anything else is missing.
\<close>

fun treeChild :: "json \<Rightarrow> string \<Rightarrow> json option" where
  "treeChild (JObj kvs) k = map_of kvs k"
| "treeChild (JArr xs) k =
     (case canonIndex k of Some i \<Rightarrow> (if i < length xs then Some (xs ! i) else None) | None \<Rightarrow> None)"
| "treeChild _ k = None"

text \<open>
  An Alpha Vantage answer and an Indian API answer whose symbol is in lower case, and a
  network that gives one of these answers to every request.
\<close>

definition lowerCaseGlobalQuote :: json where
  "lowerCaseGlobalQuote =
     JObj [(''Global Quote'',
            JObj [(''01. symbol'', JStr ''aapl''), (''05. price'', JStr ''187.32''),
                  (''09. change'', JStr ''1.10''), (''10. change percent'', JStr ''0.59%'')])]"

definition lowerCaseTicker :: json where
  "lowerCaseTicker =
     JObj [(''tickerId'', JStr ''reliance''), (''currentPrice'', JObj [(''NSE'', JNum 2950)])]"

definition answering :: "json \<Rightarrow> request \<Rightarrow> fetched" where
  "answering d rq = Responded \<lparr>status = 200, body = Some d\<rparr>"

definition finnhubAnswer :: json where
  "finnhubAnswer =
     JObj [(''c'', JNum 187), (''d'', JNum 1), (''dp'', JNum 1), (''h'', JNum 188), (''l'', JNum 186),
           (''o'', JNum 186), (''pc'', JNum 186), (''t'', JNum 1704412800)]"

definition historyRequest :: "string \<Rightarrow> HistoricalDataRequest" where
  "historyRequest i = \<lparr>histSymbol = ''AAPL'', interval = i, fromTime = None, toTime = None, limit = None\<rparr>"

text \<open>A network that cannot be reached, and a normalisation that reports it.\<close>

definition unreachable :: "request \<Rightarrow> fetched" where
  "unreachable rq = Rejected"

definition giveUp :: "fetched \<Rightarrow> unit outcome" where
  "giveUp f = Failure RuntimeMessage"

text \<open>The sample \<open>{symbol: "AAPL", price: 187.32, timestamp: "2024-01-05T00:00:00Z"}\<close>.\<close>

definition samplePrice :: rat where
  "samplePrice = 18732 / 100"

definition sampleQuote :: jsval where
  "sampleQuote =
     Val (JObj [(''symbol'', JStr ''AAPL''), (''price'', JNum samplePrice),
                (''timestamp'', JStr ''2024-01-05T00:00:00Z'')])"

text \<open>
  The identities of the cached instances are pairwise different and each is below the next
  fresh identity.
\<close>

definition cacheSound :: "factory \<Rightarrow> bool" where
  "cacheSound st =
     (distinct (map (\<lambda>e. ref (snd e)) (instances st))
      \<and> (\<forall>e \<in> set (instances st). ref (snd e) < nextRef st))"

section \<open>Properties of the field mapper\<close>

lemma nullish_iff: "nullish v \<longleftrightarrow> v = Undefined \<or> v = Val JNull"
  by (cases v rule: nullish.cases) auto

subsection \<open>extractValue\<close>

lemma extractStep_Undefined:
  "extractStep rt Undefined key = Inl TypeError \<or> extractStep rt Undefined key = Inr Undefined"
  by (auto simp: extractStep_def getOptional_def split: option.splits)

text \<open>Once the walk has reached \<open>undefined\<close> it ends in \<open>undefined\<close> or in an exception.\<close>

lemma reduceSteps_Undefined:
  "reduceSteps rt Undefined keys = Inr Undefined \<or> reduceSteps rt Undefined keys = Inl TypeError"
proof (induction keys)
  case Nil
  show ?case by simp
next
  case (Cons k ks)
  from extractStep_Undefined[of rt k] Cons show ?case by auto
qed

lemma reduceSteps_append:
  "reduceSteps rt v (xs @ ys) =
     (case reduceSteps rt v xs of Inl e \<Rightarrow> Inl e | Inr w \<Rightarrow> reduceSteps rt w ys)"
  by (induction xs arbitrary: v) (auto split: sum.splits)

lemma extract_failed:
  assumes "split_dot p = pre @ seg # post" "reduceSteps rt obj pre = Inr cur" "lookupFails rt cur seg"
  shows "extractValue rt obj p = Undefined"
  using assms reduceSteps_Undefined[of rt post]
  by (auto simp: extractValue_def reduceSteps_append lookupFails_def split: sum.splits)

text \<open>The decimal numeral of a number is its canonical index.\<close>

lemma decimal_nonempty: "decimal n \<noteq> []"
  by (subst decimal.simps) simp

lemma digit_decimal: "list_all isDigit (decimal n)"
proof (induction n rule: decimal.induct)
  case (1 n)
  show ?case
  proof (cases "n < 10")
    case True
    then show ?thesis by (subst decimal.simps) (simp add: isDigit_def)
  next
    case False
    have "n mod 10 < 10" by simp
    then have "isDigit (char_of (48 + n mod 10))" by (simp add: isDigit_def)
    with False 1 show ?thesis by (subst decimal.simps) simp
  qed
qed

lemma digitVal_char: "d < 10 \<Longrightarrow> digitVal (char_of (48 + d)) = d"
  by (simp add: digitVal_def)

lemma parseDigits_snoc: "parseDigits (ds @ [c]) = 10 * parseDigits ds + digitVal c"
  by (simp add: parseDigits_def)

lemma parseDigits_decimal: "parseDigits (decimal n) = n"
proof (induction n rule: decimal.induct)
  case (1 n)
  show ?case
  proof (cases "n < 10")
    case True
    then show ?thesis
      by (subst decimal.simps) (simp add: parseDigits_def digitVal_char)
  next
    case False
    have "n mod 10 < 10" by simp
    then have "digitVal (char_of (48 + n mod 10)) = n mod 10" by (rule digitVal_char)
    with False 1 show ?thesis
      by (subst decimal.simps) (simp add: parseDigits_snoc)
  qed
qed

lemma hd_decimal: "0 < n \<Longrightarrow> hd (decimal n) \<noteq> CHR ''0''"
proof (induction n rule: decimal.induct)
  case (1 n)
  show ?case
  proof (cases "n < 10")
    case True
    have "char_of (48 + n) \<noteq> CHR ''0''"
    proof
      assume "char_of (48 + n) = CHR ''0''"
      then have "(of_char (char_of (48 + n)) :: nat) = of_char CHR ''0''" by simp
      with True 1(2) show False by simp
    qed
    with True show ?thesis by (subst decimal.simps) simp
  next
    case False
    then have "0 < n div 10" by simp
    with False 1 have "hd (decimal (n div 10)) \<noteq> CHR ''0''" by simp
    with False show ?thesis by (subst decimal.simps) (simp add: decimal_nonempty)
  qed
qed

lemma canonIndex_decimal: "canonIndex (decimal n) = Some n"
proof (cases "n = 0")
  case True
  then show ?thesis
    by (simp add: canonIndex_def decimal.simps isDigit_def parseDigits_def digitVal_def)
next
  case False
  then show ?thesis
    by (simp add: canonIndex_def decimal_nonempty digit_decimal parseDigits_decimal hd_decimal)
qed

lemma decimal_not_length: "decimal n \<noteq> ''length''"
proof
  assume "decimal n = ''length''"
  with digit_decimal[of n] show False by (simp add: isDigit_def)
qed

lemma ownProp_out_of_range: "length xs \<le> n \<Longrightarrow> ownProp (JArr xs) (decimal n) = None"
  by (simp add: canonIndex_decimal decimal_not_length)

lemma missing_key_fails:
  assumes "arrayMatch seg = None" "ownProp j seg = None" "inherited rt (Val j) seg = Inr Undefined"
  shows "lookupFails rt (Val j) seg"
  using assms by (cases j) (simp_all add: lookupFails_def extractStep_def getOptional_def)

lemma missing_array_fails:
  assumes "arrayMatch seg = Some (k, ds)" "ownProp j k = None" "inherited rt (Val j) k = Inr Undefined"
  shows "lookupFails rt (Val j) seg"
  using assms by (cases j) (simp_all add: lookupFails_def extractStep_def getIndexed_def getOptional_def)

lemma index_out_of_range_fails:
  assumes "arrayMatch seg = Some (k, ds)" "getMember rt cur k = Inr (Val (JArr xs))"
    "length xs \<le> parseDigits ds"
  shows "lookupFails rt cur seg"
proof -
  have "getIndexed rt (Val (JArr xs)) (parseDigits ds) = Inr Undefined"
  proof (cases "parseDigits ds \<le> 2 ^ 53")
    case True
    have "ownProp (JArr xs) (decimal (parseDigits ds)) = None"
      using assms(3) by (rule ownProp_out_of_range)
    then have "getMember rt (Val (JArr xs)) (decimal (parseDigits ds)) = Inr Undefined"
      by (simp add: canonIndex_decimal del: ownProp.simps)
    with True show ?thesis
      by (simp add: getIndexed_def getOptional_def del: getMember.simps)
  next
    case False
    then show ?thesis
      by (simp add: getIndexed_def)
  qed
  with assms(1,2) show ?thesis
    by (simp add: lookupFails_def extractStep_def del: getMember.simps)
qed

text \<open>
  Claim C5 as stated fails: \<open>length\<close> is no key of the tree, yet on an array and on a
  string the walk reads the JavaScript property of that name and returns a number, not
  \<open>undefined\<close> (with a runtime that supplies no inherited member at all).
\<close>

theorem extractValue_length_counterexample:
  "treeChild (JArr [JNum 1, JNum 2]) ''length'' = None
   \<and> extractValue bareRuntime (Val (JObj [(''items'', JArr [JNum 1, JNum 2])])) ''items.length''
       = Val (JNum 2)
   \<and> treeChild (JStr ''hello'') ''length'' = None
   \<and> extractValue bareRuntime (Val (JObj [(''name'', JStr ''hello'')])) ''name.length'' = Val (JNum 5)"
  by code_simp

text \<open>
  Claim C5, amended. \<open>extractValue\<close> applied to \<open>{a:{b:[{c:5}]}}\<close> with path \<open>a.b[0].c\<close>
  returns 5, on every runtime. For every value and every path it returns \<open>undefined\<close>, and
  never raises, whenever the walk raises or the lookup of some segment yields \<open>undefined\<close>.
  The lookup of a segment yields \<open>undefined\<close>, or raises, in particular when the segment
  names a key, alone or before a bracketed index, that is neither an own property of the
  value reached (a key of an object, an index in range or \<open>length\<close> of an array or string)
  nor a member that the runtime's prototypes supply, and when it names an index past the
  end of an array, however large the index.
\<close>

theorem extractValue_undefined_on_failed_lookup:
  "extractValue rt (Val (JObj [(''a'', JObj [(''b'', JArr [JObj [(''c'', JNum 5)]])])])) ''a.b[0].c''
     = Val (JNum 5)
   \<and> (split_dot p = pre @ seg # post \<and> reduceSteps rt obj pre = Inr cur \<and> lookupFails rt cur seg
        \<longrightarrow> extractValue rt obj p = Undefined)
   \<and> (reduceSteps rt obj (split_dot p) = Inl e \<longrightarrow> extractValue rt obj p = Undefined)
   \<and> (arrayMatch seg = None \<and> ownProp j seg = None \<and> inherited rt (Val j) seg = Inr Undefined
        \<longrightarrow> lookupFails rt (Val j) seg)
   \<and> (arrayMatch seg = Some (k, ds) \<and> ownProp j k = None \<and> inherited rt (Val j) k = Inr Undefined
        \<longrightarrow> lookupFails rt (Val j) seg)
   \<and> (arrayMatch seg = Some (k, ds) \<and> getMember rt cur k = Inr (Val (JArr xs))
        \<and> length xs \<le> parseDigits ds
        \<longrightarrow> lookupFails rt cur seg)"
proof (intro conjI impI)
  show "extractValue rt (Val (JObj [(''a'', JObj [(''b'', JArr [JObj [(''c'', JNum 5)]])])])) ''a.b[0].c''
     = Val (JNum 5)"
    by (simp add: extractValue_def extractStep_def arrayMatch_def getOptional_def getIndexed_def
          parseDigits_def digitVal_def isDigit_def lineTerminator_def canonIndex_def decimal.simps)
next
  assume a: "split_dot p = pre @ seg # post \<and> reduceSteps rt obj pre = Inr cur \<and> lookupFails rt cur seg"
  show "extractValue rt obj p = Undefined"
    by (rule extract_failed[OF a[THEN conjunct1] a[THEN conjunct2, THEN conjunct1]
                               a[THEN conjunct2, THEN conjunct2]])
next
  assume "reduceSteps rt obj (split_dot p) = Inl e"
  then show "extractValue rt obj p = Undefined"
    by (simp add: extractValue_def)
next
  assume a: "arrayMatch seg = None \<and> ownProp j seg = None \<and> inherited rt (Val j) seg = Inr Undefined"
  show "lookupFails rt (Val j) seg"
    by (rule missing_key_fails[OF a[THEN conjunct1] a[THEN conjunct2, THEN conjunct1]
                                  a[THEN conjunct2, THEN conjunct2]])
next
  assume a: "arrayMatch seg = Some (k, ds) \<and> ownProp j k = None \<and> inherited rt (Val j) k = Inr Undefined"
  show "lookupFails rt (Val j) seg"
    by (rule missing_array_fails[OF a[THEN conjunct1] a[THEN conjunct2, THEN conjunct1]
                                    a[THEN conjunct2, THEN conjunct2]])
next
  assume a: "arrayMatch seg = Some (k, ds) \<and> getMember rt cur k = Inr (Val (JArr xs))
        \<and> length xs \<le> parseDigits ds"
  show "lookupFails rt cur seg"
    by (rule index_out_of_range_fails
          [OF a[THEN conjunct1] a[THEN conjunct2, THEN conjunct1] a[THEN conjunct2, THEN conjunct2]])
qed

theorem extractValue_undefined_on_failed_lookup_witness:
  "extractValue bareRuntime sampleResponse ''data.name.first'' = Undefined
   \<and> extractValue bareRuntime sampleResponse ''items[5].x'' = Undefined
   \<and> extractValue bareRuntime sampleResponse ''items[9007199254740993]'' = Undefined
   \<and> extractValue bareRuntime sampleResponse ''data.rows[0]'' = Undefined
   \<and> extractValue bareRuntime sampleResponse ''data.price.x[0]'' = Undefined"
proof -
  let ?data = "JObj [(''symbol'', JStr ''AAPL''), (''price'', JNull)]"
  have s1: "split_dot ''data.name.first'' = [''data''] @ ''name'' # [''first'']"
    by code_simp
  have r1: "reduceSteps bareRuntime sampleResponse [''data''] = Inr (Val ?data)"
    by code_simp
  have m1: "arrayMatch ''name'' = None \<and> ownProp ?data ''name'' = None
            \<and> inherited bareRuntime (Val ?data) ''name'' = Inr Undefined"
    by code_simp
  have f1: "lookupFails bareRuntime (Val ?data) ''name''"
    by (rule extractValue_undefined_on_failed_lookup
               [where rt = bareRuntime and j = ?data and seg = "''name''",
                THEN conjunct2, THEN conjunct2, THEN conjunct2, THEN conjunct1, THEN mp, OF m1])
  have c1: "extractValue bareRuntime sampleResponse ''data.name.first'' = Undefined"
    by (rule extractValue_undefined_on_failed_lookup
               [where rt = bareRuntime and p = "''data.name.first''" and pre = "[''data'']"
                  and seg = "''name''" and post = "[''first'']" and obj = sampleResponse
                  and cur = "Val ?data",
                THEN conjunct2, THEN conjunct1, THEN mp, OF conjI[OF s1 conjI[OF r1 f1]]])
  have s2: "split_dot ''items[5].x'' = [] @ ''items[5]'' # [''x'']"
    by code_simp
  have r2: "reduceSteps bareRuntime sampleResponse [] = Inr sampleResponse"
    by simp
  have am: "arrayMatch ''items[5]'' = Some (''items'', ''5'')"
    by code_simp
  have gm: "getMember bareRuntime sampleResponse ''items'' = Inr (Val (JArr [JNum 1, JNum 2]))"
    by code_simp
  have pd: "parseDigits ''5'' = 5"
    by (simp add: parseDigits_def digitVal_def)
  have m2: "arrayMatch ''items[5]'' = Some (''items'', ''5'')
            \<and> getMember bareRuntime sampleResponse ''items'' = Inr (Val (JArr [JNum 1, JNum 2]))
            \<and> length [JNum 1, JNum 2] \<le> parseDigits ''5''"
    by (simp add: am gm pd)
  have f2: "lookupFails bareRuntime sampleResponse ''items[5]''"
    by (rule extractValue_undefined_on_failed_lookup
               [where rt = bareRuntime and seg = "''items[5]''" and k = "''items''" and ds = "''5''"
                  and cur = sampleResponse and xs = "[JNum 1, JNum 2]",
                THEN conjunct2, THEN conjunct2, THEN conjunct2, THEN conjunct2, THEN conjunct2, THEN mp, OF m2])
  have c2: "extractValue bareRuntime sampleResponse ''items[5].x'' = Undefined"
    by (rule extractValue_undefined_on_failed_lookup
               [where rt = bareRuntime and p = "''items[5].x''" and pre = "[]" and seg = "''items[5]''"
                  and post = "[''x'']" and obj = sampleResponse and cur = sampleResponse,
                THEN conjunct2, THEN conjunct1, THEN mp, OF conjI[OF s2 conjI[OF r2 f2]]])
  have s4: "split_dot ''items[9007199254740993]'' = [] @ ''items[9007199254740993]'' # []"
    by code_simp
  have am4: "arrayMatch ''items[9007199254740993]'' = Some (''items'', ''9007199254740993'')"
    by code_simp
  have pd4: "parseDigits ''9007199254740993'' = 9007199254740993"
    by (simp add: parseDigits_def digitVal_def)
  have m4: "arrayMatch ''items[9007199254740993]'' = Some (''items'', ''9007199254740993'')
            \<and> getMember bareRuntime sampleResponse ''items'' = Inr (Val (JArr [JNum 1, JNum 2]))
            \<and> length [JNum 1, JNum 2] \<le> parseDigits ''9007199254740993''"
    by (simp add: am4 gm pd4)
  have f4: "lookupFails bareRuntime sampleResponse ''items[9007199254740993]''"
    by (rule extractValue_undefined_on_failed_lookup
               [where rt = bareRuntime and seg = "''items[9007199254740993]''" and k = "''items''"
                  and ds = "''9007199254740993''" and cur = sampleResponse and xs = "[JNum 1, JNum 2]",
                THEN conjunct2, THEN conjunct2, THEN conjunct2, THEN conjunct2, THEN conjunct2, THEN mp, OF m4])
  have c4: "extractValue bareRuntime sampleResponse ''items[9007199254740993]'' = Undefined"
    by (rule extractValue_undefined_on_failed_lookup
               [where rt = bareRuntime and p = "''items[9007199254740993]''" and pre = "[]"
                  and seg = "''items[9007199254740993]''" and post = "[]" and obj = sampleResponse
                  and cur = sampleResponse,
                THEN conjunct2, THEN conjunct1, THEN mp, OF conjI[OF s4 conjI[OF r2 f4]]])
  have s5: "split_dot ''data.rows[0]'' = [''data''] @ ''rows[0]'' # []"
    by code_simp
  have m5: "arrayMatch ''rows[0]'' = Some (''rows'', ''0'') \<and> ownProp ?data ''rows'' = None
            \<and> inherited bareRuntime (Val ?data) ''rows'' = Inr Undefined"
    by code_simp
  have f5: "lookupFails bareRuntime (Val ?data) ''rows[0]''"
    by (rule extractValue_undefined_on_failed_lookup
               [where rt = bareRuntime and j = ?data and seg = "''rows[0]''" and k = "''rows''"
                  and ds = "''0''",
                THEN conjunct2, THEN conjunct2, THEN conjunct2, THEN conjunct2, THEN conjunct1, THEN mp,
                OF m5])
  have c5: "extractValue bareRuntime sampleResponse ''data.rows[0]'' = Undefined"
    by (rule extractValue_undefined_on_failed_lookup
               [where rt = bareRuntime and p = "''data.rows[0]''" and pre = "[''data'']"
                  and seg = "''rows[0]''" and post = "[]" and obj = sampleResponse
                  and cur = "Val ?data",
                THEN conjunct2, THEN conjunct1, THEN mp, OF conjI[OF s5 conjI[OF r1 f5]]])
  have e3: "reduceSteps bareRuntime sampleResponse (split_dot ''data.price.x[0]'') = Inl TypeError"
    by code_simp
  have c3: "extractValue bareRuntime sampleResponse ''data.price.x[0]'' = Undefined"
    by (rule extractValue_undefined_on_failed_lookup
               [where rt = bareRuntime and p = "''data.price.x[0]''" and obj = sampleResponse
                  and e = TypeError,
                THEN conjunct2, THEN conjunct2, THEN conjunct1, THEN mp, OF e3])
  show ?thesis
    by (rule conjI[OF c1 conjI[OF c2 conjI[OF c4 conjI[OF c5 c3]]]])
qed

subsection \<open>validateResponse\<close>

lemma validateLoop_acc:
  "validateLoop rt r ms errs =
     errs @ map missingError (filter (\<lambda>m. nullish (extractValue rt r (sourceField m))) ms)"
  by (induction ms arbitrary: errs) (auto simp: Let_def nullish_iff)

lemma validateResponse_eq:
  "validateResponse rt r ms =
     map missingError
       (filter (\<lambda>m. required m = Some True \<and> nullish (extractValue rt r (sourceField m))) ms)"
  by (simp add: validateResponse_def validateLoop_acc del: nullish.simps)

text \<open>
  Claim C6. \<open>validateResponse\<close> returns exactly one \<open>ValidationError\<close> for each required
  mapping whose extracted value is \<open>null\<close> or \<open>undefined\<close>, in the order of the mappings and
  naming the mapping's source field, and nothing else; so it returns the empty list when every
  required mapping extracts a value that is neither \<open>null\<close> nor \<open>undefined\<close>.
\<close>

theorem validateResponse_one_error_per_missing_required:
  "validateResponse rt response mappings =
     map missingError
       (filter (\<lambda>m. required m = Some True \<and> nullish (extractValue rt response (sourceField m)))
          mappings)
   \<and> ((\<forall>m \<in> set mappings.
          required m = Some True \<longrightarrow> \<not> nullish (extractValue rt response (sourceField m)))
        \<longrightarrow> validateResponse rt response mappings = [])"
proof
  show "validateResponse rt response mappings =
     map missingError
       (filter (\<lambda>m. required m = Some True \<and> nullish (extractValue rt response (sourceField m)))
          mappings)"
    by (rule validateResponse_eq)
next
  show "(\<forall>m \<in> set mappings.
          required m = Some True \<longrightarrow> \<not> nullish (extractValue rt response (sourceField m)))
        \<longrightarrow> validateResponse rt response mappings = []"
    by (auto simp: validateResponse_eq filter_empty_conv simp del: nullish.simps)
qed

theorem validateResponse_one_error_per_missing_required_witness:
  "validateResponse bareRuntime sampleResponse
     [requiredMapping ''data.symbol'' ''symbol'', requiredMapping ''data.price'' ''price'',
      optionalMapping ''data.volume'' ''volume'', requiredMapping ''data.name'' ''name'']
   = [missingError (requiredMapping ''data.price'' ''price''),
      missingError (requiredMapping ''data.name'' ''name'')]
   \<and> validateResponse bareRuntime sampleResponse
        [requiredMapping ''data.symbol'' ''symbol'', optionalMapping ''data.volume'' ''volume''] = []"
proof -
  have sym: "extractValue bareRuntime sampleResponse ''data.symbol'' = Val (JStr ''AAPL'')"
    by code_simp
  have price: "extractValue bareRuntime sampleResponse ''data.price'' = Val JNull"
    by code_simp
  have name: "extractValue bareRuntime sampleResponse ''data.name'' = Undefined"
    by code_simp
  have hyp: "\<forall>m \<in> set [requiredMapping ''data.symbol'' ''symbol'', optionalMapping ''data.volume'' ''volume''].
          required m = Some True \<longrightarrow> \<not> nullish (extractValue bareRuntime sampleResponse (sourceField m))"
    by (simp add: requiredMapping_def optionalMapping_def sym)
  from validateResponse_one_error_per_missing_required
         [of bareRuntime sampleResponse
             "[requiredMapping ''data.symbol'' ''symbol'', optionalMapping ''data.volume'' ''volume'']"] hyp
  have none: "validateResponse bareRuntime sampleResponse
        [requiredMapping ''data.symbol'' ''symbol'', optionalMapping ''data.volume'' ''volume''] = []"
    by blast
  from validateResponse_one_error_per_missing_required
         [of bareRuntime sampleResponse
             "[requiredMapping ''data.symbol'' ''symbol'', requiredMapping ''data.price'' ''price'',
               optionalMapping ''data.volume'' ''volume'', requiredMapping ''data.name'' ''name'']"]
  have two: "validateResponse bareRuntime sampleResponse
     [requiredMapping ''data.symbol'' ''symbol'', requiredMapping ''data.price'' ''price'',
      optionalMapping ''data.volume'' ''volume'', requiredMapping ''data.name'' ''name'']
   = [missingError (requiredMapping ''data.price'' ''price''),
      missingError (requiredMapping ''data.name'' ''name'')]"
    by (simp add: requiredMapping_def optionalMapping_def sym price name)
  from two none show ?thesis by blast
qed

section \<open>Properties of the adapter factory\<close>

lemma map_of_mapSet: "map_of (mapSet k v m) k' = (if k' = k then Some v else map_of m k')"
  by (induction m) auto

lemma mapSet_mapSet: "mapSet k v (mapSet k w m) = mapSet k v m"
  by (induction m) auto

lemma map_of_mapDelete: "map_of (mapDelete k m) k' = (if k' = k then None else map_of m k')"
  by (induction m) (auto simp: mapDelete_def)

text \<open>
  Two \<open>getAdapter\<close> calls in a row with the same configuration give the same instance, and
  the second call leaves the cache as it is.
\<close>

lemma getAdapter_idempotent:
  "getAdapter c (snd (getAdapter c st)) = (fst (getAdapter c st), snd (getAdapter c st))"
  by (auto simp: getAdapter_def createAdapter_def map_of_mapSet split: option.splits)

text \<open>
  What does hold. The identities in the cache are pairwise different and below the next
  fresh one; \<open>getAdapter\<close> keeps it so; hence two configurations whose cache keys differ
  resolve to different instances.
\<close>

lemma cacheSound_getAdapter: "cacheSound st \<Longrightarrow> cacheSound (snd (getAdapter c st))"
proof -
  assume a: "cacheSound st"
  have k: "\<And>v. map_of (instances st) (cacheKey c) = None \<Longrightarrow>
             mapSet (cacheKey c) v (instances st) = instances st @ [(cacheKey c, v)]"
  proof -
    fix v
    show "map_of m (cacheKey c) = None \<Longrightarrow> mapSet (cacheKey c) v m = m @ [(cacheKey c, v)]" for m :: "(string \<times> adapter) list"
      by (induction m) (auto split: if_splits)
  qed
  show ?thesis
  proof (cases "map_of (instances st) (cacheKey c)")
    case (Some x)
    with a show ?thesis by (simp add: getAdapter_def)
  next
    case None
    with a k[OF None] show ?thesis
      by (auto simp: getAdapter_def createAdapter_def cacheSound_def less_Suc_eq split: option.splits)
  qed
qed

lemma cached_refs_differ:
  assumes "distinct (map (\<lambda>e. ref (snd e)) m)" "map_of m k1 = Some a1" "map_of m k2 = Some a2" "k1 \<noteq> k2"
  shows "ref a1 \<noteq> ref a2"
proof -
  from assms(2,3) have "(k1, a1) \<in> set m" "(k2, a2) \<in> set m"
    by (auto dest: map_of_SomeD)
  moreover from assms(4) have "(k1, a1) \<noteq> (k2, a2)" by simp
  moreover from assms(1) have "inj_on (\<lambda>e. ref (snd e)) (set m)"
    by (simp add: distinct_map)
  ultimately have "ref (snd (k1, a1)) \<noteq> ref (snd (k2, a2))"
    by (metis inj_onD)
  then show ?thesis by simp
qed

lemma getAdapter_distinct_keys:
  assumes "cacheSound st" "getAdapter c1 st = (Some a1, st1)" "getAdapter c2 st1 = (Some a2, st2)"
    "cacheKey c1 \<noteq> cacheKey c2"
  shows "ref a1 \<noteq> ref a2"
proof -
  from assms(1,2) have s1: "cacheSound st1"
    using cacheSound_getAdapter[of st c1] by simp
  from assms(2) have m1: "map_of (instances st1) (cacheKey c1) = Some a1"
    by (auto simp: getAdapter_def createAdapter_def map_of_mapSet split: option.splits)
  show ?thesis
  proof (cases "map_of (instances st1) (cacheKey c2)")
    case (Some x)
    with assms(3) have "x = a2" by (simp add: getAdapter_def)
    with Some m1 s1 assms(4) show ?thesis
      by (auto simp: cacheSound_def dest: cached_refs_differ)
  next
    case None
    with assms(3) have "ref a2 = nextRef st1"
      by (auto simp: getAdapter_def createAdapter_def split: option.splits)
    moreover from m1 have "(cacheKey c1, a1) \<in> set (instances st1)"
      by (rule map_of_SomeD)
    with s1 have "ref a1 < nextRef st1"
      by (auto simp: cacheSound_def)
    ultimately show ?thesis by simp
  qed
qed

text \<open>
  With the three built-in providers alone the keys of two different configurations differ:
  no built-in provider id followed by \<open>-\<close> starts another.
\<close>

lemma builtin_keys_differ:
  assumes "providerId c1 \<in> {''alpha-vantage'', ''finnhub'', ''indian-api''}"
    "providerId c2 \<in> {''alpha-vantage'', ''finnhub'', ''indian-api''}"
    "cacheKey c1 = cacheKey c2"
  shows "providerId c1 = providerId c2 \<and> configId c1 = configId c2"
  using assms by (auto simp: cacheKey_def)

lemma cacheSound_builtin: "cacheSound builtin"
  by (simp add: cacheSound_def builtin_def register_def)

text \<open>
  Claim C1 says that two configurations that differ in the provider id or in the id resolve
  to distinct instances. The cache key is the text \<open>providerId-id\<close>, and two different pairs
  can spell the same text: in a catalog that holds both \<open>finnhub\<close> and \<open>finnhub-pro\<close>, the
  configuration \<open>(finnhub, pro-1)\<close> and the configuration \<open>(finnhub-pro, 1)\<close> share the key
  \<open>finnhub-pro-1\<close>. Resolved one after the other they give one and the same instance, built
  by the Finnhub constructor, although the second names a provider with a constructor of
  its own.
\<close>

theorem getAdapter_key_collision:
  "cacheKey configProOne = cacheKey configOne
   \<and> providerId configProOne \<noteq> providerId configOne
   \<and> configId configProOne \<noteq> configId configOne
   \<and> map_of (registered extendedCatalog) (providerId configProOne) = Some ''FinnhubAdapter''
   \<and> map_of (registered extendedCatalog) (providerId configOne) = Some ''FinnhubProAdapter''
   \<and> fst (getAdapter configProOne extendedCatalog) = Some \<lparr>ref = 4, builtBy = ''FinnhubAdapter''\<rparr>
   \<and> fst (getAdapter configOne (snd (getAdapter configProOne extendedCatalog)))
       = Some \<lparr>ref = 4, builtBy = ''FinnhubAdapter''\<rparr>"
  by code_simp

text \<open>
  Claim C2 says that \<open>clearCache(configId)\<close> removes the entries of that configuration and
  leaves every other entry as it is. With the built-in catalog, resolve the Finnhub
  configuration with id \<open>a-x\<close> and then the one with id \<open>x\<close>: the cache holds the keys
  \<open>finnhub-a-x\<close> and \<open>finnhub-x\<close>. \<open>clearCache("x")\<close> deletes the first key that ends with
  \<open>-x\<close>, which is \<open>finnhub-a-x\<close>, and stops: the entry of the other configuration is gone
  (resolving it again builds a new instance) and the entry of configuration \<open>x\<close> is still
  served from the cache.
\<close>

theorem clearCache_removes_other_entry:
  "map fst (instances (snd (getAdapter configX (snd (getAdapter configAX builtin)))))
     = [''finnhub-a-x'', ''finnhub-x'']
   \<and> map fst (instances (clearCache (Some (configId configX))
                  (snd (getAdapter configX (snd (getAdapter configAX builtin))))))
     = [''finnhub-x'']
   \<and> fst (getAdapter configAX (clearCache (Some (configId configX))
              (snd (getAdapter configX (snd (getAdapter configAX builtin))))))
     \<noteq> fst (getAdapter configAX builtin)
   \<and> fst (getAdapter configX (clearCache (Some (configId configX))
              (snd (getAdapter configX (snd (getAdapter configAX builtin))))))
     = fst (getAdapter configX (snd (getAdapter configAX builtin)))"
  by code_simp

text \<open>Without an argument, and with the empty string, \<open>clearCache\<close> empties the cache.\<close>

lemma clearCache_all: "instances (clearCache None st) = [] \<and> instances (clearCache (Some []) st) = []"
  by (simp add: clearCache_def)

section \<open>Properties of the connection manager\<close>

subsection \<open>Handler registrations\<close>

lemma handlers_disconnect: "handlers (disconnect pid m) = handlers m"
  by (simp add: disconnect_def closeSocket_def setSockState_def Let_def split: option.splits)

lemma handlers_connect: "handlers (snd (connect pid c a m)) = handlers m"
  by (simp add: connect_def Let_def handlers_disconnect)

lemma handlers_attemptReconnect: "handlers (attemptReconnect pid c a m) = handlers m"
  by (simp add: attemptReconnect_def Let_def)

lemma handlers_sendSubscriptionMessage: "handlers (sendSubscriptionMessage ws pid act syms m) = handlers m"
  by (simp add: sendSubscriptionMessage_def)

lemma handlers_subscribe: "handlers (subscribe pid syms m) = handlers m"
  by (simp add: subscribe_def Let_def handlers_sendSubscriptionMessage split: option.splits)

lemma handlers_unsubscribe: "handlers (unsubscribe pid syms m) = handlers m"
  by (simp add: unsubscribe_def Let_def handlers_sendSubscriptionMessage split: option.splits)

lemma handlers_handleMessage: "handlers (handleMessage pid msg m) = handlers m"
  by (simp add: handleMessage_def split: option.splits)

lemma handlers_setSockState: "handlers (setSockState ws st m) = handlers m"
  by (simp add: setSockState_def split: option.splits)

lemma handlers_onopen: "handlers (onopen ws sock m) = handlers m"
  by (simp add: onopen_def Let_def authenticateConnection_def handlers_sendSubscriptionMessage
        split: option.splits)

lemma handlers_onclose: "handlers (onclose sock cc m) = handlers m"
  by (simp add: onclose_def Let_def handlers_attemptReconnect)

lemma handlers_timerCallback: "handlers (timerCallback t m) = handlers m"
  by (simp add: timerCallback_def handlers_connect)

lemma handlersOf_addHandler:
  "handlersOf (addHandler pid h m) p = (if p = pid then setAdd h (handlersOf m pid) else handlersOf m p)"
  by (simp add: handlersOf_def addHandler_def Let_def map_of_mapSet)

lemma handlersOf_removeHandler:
  "handlersOf (removeHandler pid h m) p =
     (if p = pid then setDelete h (handlersOf m pid) else handlersOf m p)"
  by (auto simp: handlersOf_def removeHandler_def map_of_mapSet setDelete_def split: option.splits)

lemma distinct_setAdd: "distinct xs \<Longrightarrow> distinct (setAdd x xs)"
  by (simp add: setAdd_def)

lemma distinct_setDelete: "distinct xs \<Longrightarrow> distinct (setDelete x xs)"
  by (simp add: setDelete_def distinct_removeAll)

lemma setAdd_setAdd: "setAdd x (setAdd x xs) = setAdd x xs"
  by (simp add: setAdd_def)

text \<open>Every step of a run keeps the registrations of each provider free of duplicates.\<close>

lemma handlerSets_cong: "handlers m' = handlers m \<Longrightarrow> handlerSets m \<Longrightarrow> handlerSets m'"
  by (simp add: handlerSets_def handlersOf_def)

lemma handlerSets_step: "handlerSets m \<Longrightarrow> handlerSets (step m a)"
proof (cases a)
  case (AddHandler pid h)
  assume "handlerSets m"
  then show ?thesis using AddHandler
    by (simp add: handlerSets_def handlersOf_addHandler distinct_setAdd)
next
  case (RemoveHandler pid h)
  assume "handlerSets m"
  then show ?thesis using RemoveHandler
    by (simp add: handlerSets_def handlersOf_removeHandler distinct_setDelete)
next
  case Cleanup
  show ?thesis using Cleanup by (simp add: cleanup_def handlerSets_def handlersOf_def)
qed (auto intro!: handlerSets_cong[of _ m]
       simp: handlers_connect handlers_disconnect handlers_subscribe handlers_unsubscribe
             handlers_onopen handlers_onclose handlers_handleMessage handlers_setSockState
             handlers_timerCallback onerror_def onmessage_def
       split: option.splits)

lemma handlerSets_run: "handlerSets m \<Longrightarrow> handlerSets (run m as)"
  unfolding run_def by (induction as arbitrary: m) (auto simp: handlerSets_step)

lemma handlerSets_new: "handlerSets (newManager r w)"
  by (simp add: handlerSets_def handlersOf_def newManager_def)

lemma addHandler_twice: "addHandler pid h (addHandler pid h m) = addHandler pid h m"
  by (simp add: addHandler_def Let_def map_of_mapSet mapSet_mapSet setAdd_setAdd)

lemma fanOut_eq: "fanOut m pid msg = map (\<lambda>h. (h, msg)) (handlersOf m pid)"
  by (simp add: fanOut_def handleMessage_def handlersOf_def split: option.splits)

lemma count_distinct: "distinct xs \<Longrightarrow> x \<in> set xs \<Longrightarrow> count_list xs x = 1"
  by (induction xs) (auto simp: count_list_0_iff)

lemma count_setAdd: "distinct xs \<Longrightarrow> count_list (setAdd x xs) x = 1"
  by (auto simp: setAdd_def count_list_0_iff count_distinct)

lemma count_map_pair: "count_list (map (\<lambda>h. (h, msg)) hs) (h, msg) = count_list hs h"
  by (induction hs) auto

text \<open>
  Claim C10. In every state that a run of the manager reaches from a new manager,
  registering the same handler a second time for a provider changes nothing, and a message
  fanned out for that provider then calls the handler exactly once.
\<close>

theorem addHandler_twice_invoked_once:
  "addHandler pid h (addHandler pid h (run (newManager r w) as)) = addHandler pid h (run (newManager r w) as)
   \<and> count_list (fanOut (addHandler pid h (addHandler pid h (run (newManager r w) as))) pid msg) (h, msg) = 1"
proof -
  have "handlerSets (run (newManager r w) as)"
    by (simp add: handlerSets_run handlerSets_new)
  then have "distinct (handlersOf (run (newManager r w) as) pid)"
    by (simp add: handlerSets_def)
  then show ?thesis
    by (simp add: addHandler_twice fanOut_eq count_map_pair handlersOf_addHandler count_setAdd)
qed

theorem addHandler_twice_invoked_once_witness:
  "count_list
     (fanOut (addHandler ''finnhub'' 7 (addHandler ''finnhub'' 7
                (run (newManager (\<lambda>u. False) keepWide)
                   [AddHandler ''finnhub'' 3, Connect ''finnhub'' sampleWsConfig configX, SocketOpens 0])))
        ''finnhub''
        \<lparr>msgType = ''quote'', msgData = Undefined, msgSymbol = Val (JStr ''AAPL''), msgTimestamp = 0\<rparr>)
     (7, \<lparr>msgType = ''quote'', msgData = Undefined, msgSymbol = Val (JStr ''AAPL''), msgTimestamp = 0\<rparr>)
   = 1"
  using addHandler_twice_invoked_once
          [of "''finnhub''" 7 "\<lambda>u. False" keepWide
              "[AddHandler ''finnhub'' 3, Connect ''finnhub'' sampleWsConfig configX, SocketOpens 0]"
              "\<lparr>msgType = ''quote'', msgData = Undefined, msgSymbol = Val (JStr ''AAPL''), msgTimestamp = 0\<rparr>"]
  by blast

subsection \<open>Disconnecting\<close>

text \<open>
  \<open>disconnect\<close> forgets the transport of the provider, cancels the timer that
  \<open>reconnectTimers\<close> records for it, and clears its attempt counter.
\<close>

lemma disconnect_clears:
  "map_of (connections (disconnect pid m)) pid = None
   \<and> map_of (reconnectTimers (disconnect pid m)) pid = None
   \<and> map_of (reconnectAttempts (disconnect pid m)) pid = None"
  by (simp add: disconnect_def Let_def closeSocket_def setSockState_def map_of_mapDelete
        split: option.splits)

text \<open>
  Claim C7 says that after \<open>disconnect\<close> returns no reconnect fires for the provider until
  an explicit \<open>connect\<close>. Two runs of the code end otherwise.

  In the first, \<open>disconnect\<close> is called while the transport is still connecting. Its close
  event arrives after \<open>disconnect\<close> has returned, with code 1006 (a transport closed before
  it was established closes abnormally); \<open>onclose\<close> is still installed on it, sees a code
  other than 1000 and schedules a reconnect. When that timer fires, a second transport is
  made.

  In the second, an explicit \<open>connect\<close> is made while a reconnect timer is pending (the map
  holds no transport then, so \<open>connect\<close> cancels nothing), and the new transport closes
  abnormally too: \<open>reconnectTimers\<close> now records the second timer only. \<open>disconnect\<close>
  cancels that one; the first is still pending and, when it fires, makes a third transport.
\<close>

theorem reconnect_fires_after_disconnect:
  "map fst (sockets (run freshManager
       [Connect ''finnhub'' sampleWsConfig configX, Disconnect ''finnhub''])) = [0]
   \<and> map fst (timers (run freshManager
       [Connect ''finnhub'' sampleWsConfig configX, Disconnect ''finnhub'', SocketCloses 0 1006])) = [1]
   \<and> map fst (sockets (run freshManager
       [Connect ''finnhub'' sampleWsConfig configX, Disconnect ''finnhub'', SocketCloses 0 1006,
        TimerFires 1])) = [0, 2]
   \<and> connections (run freshManager
       [Connect ''finnhub'' sampleWsConfig configX, Disconnect ''finnhub'', SocketCloses 0 1006,
        TimerFires 1]) = [(''finnhub'', 2)]
   \<and> map fst (timers (run freshManager
       [Connect ''finnhub'' sampleWsConfig configX, SocketCloses 0 1006,
        Connect ''finnhub'' sampleWsConfig configX, SocketCloses 2 1006, Disconnect ''finnhub''])) = [1]
   \<and> map fst (sockets (run freshManager
       [Connect ''finnhub'' sampleWsConfig configX, SocketCloses 0 1006,
        Connect ''finnhub'' sampleWsConfig configX, SocketCloses 2 1006, Disconnect ''finnhub'',
        TimerFires 1])) = [0, 2, 4]
   \<and> connections (run freshManager
       [Connect ''finnhub'' sampleWsConfig configX, SocketCloses 0 1006,
        Connect ''finnhub'' sampleWsConfig configX, SocketCloses 2 1006, Disconnect ''finnhub'',
        TimerFires 1]) = [(''finnhub'', 4)]"
  by code_simp

subsection \<open>Reconnecting\<close>

lemma orDefault_configured: "x \<noteq> Some 0 \<Longrightarrow> orDefault x d = configured x d"
  by (cases x) (simp_all add: orDefault_def configured_def)

text \<open>What an abnormal close of a transport schedules.\<close>

lemma abnormal_close_timers:
  assumes "map_of (sockets m) ws = Some sock" "sockState sock \<noteq> CLOSED" "closeCode \<noteq> 1000"
  shows "timers (step m (SocketCloses ws closeCode)) =
     (if int (attemptsOf m (sockProvider sock)) < orDefault (maxReconnectAttempts (sockConfig sock)) 5
      then timers m @ [(nextId m, \<lparr>timerProvider = sockProvider sock, timerConfig = sockConfig sock,
                          timerApiConfig = sockApiConfig sock,
                          timerAttempts = attemptsOf m (sockProvider sock),
                          timerDelay = orDefault (reconnectInterval (sockConfig sock)) 5000
                                         * 2 ^ attemptsOf m (sockProvider sock)\<rparr>)]
      else timers m)"
  using assms
  by (simp add: onclose_def attemptReconnect_def Let_def setSockState_def attemptsOf_def)

text \<open>The opening of a transport resets the counter of its provider.\<close>

lemma open_resets_counter:
  assumes "map_of (sockets m) ws = Some sock" "sockState sock = CONNECTING"
  shows "attemptsOf (step m (SocketOpens ws)) (sockProvider sock) = 0"
  using assms
  by (simp add: onopen_def Let_def authenticateConnection_def sendSubscriptionMessage_def
        setSockState_def attemptsOf_def map_of_mapSet split: option.splits)

subsubsection \<open>After the cap\<close>

lemma set_mapSet: "set (mapSet k v xs) \<subseteq> insert (k, v) (set xs)"
  by (induction xs) auto

lemma set_mapDelete: "set (mapDelete k xs) \<subseteq> set xs"
  by (auto simp: mapDelete_def)

lemma capReached_iff:
  "capReached pid m \<longleftrightarrow>
     (\<forall>e \<in> set (timers m). timerProvider (snd e) \<noteq> pid)
     \<and> (\<forall>e \<in> set (sockets m). sockProvider (snd e) = pid \<and> sockState (snd e) \<noteq> CLOSED \<longrightarrow>
            maxReconnectAttempts (sockConfig (snd e)) \<noteq> Some 0
            \<and> configured (maxReconnectAttempts (sockConfig (snd e))) 5 \<le> int (attemptsOf m pid))"
  by (simp add: capReached_def list_all_iff)

text \<open>
  The cap stays reached when the counter of the provider stays, no timer of the provider
  is added, and every open transport of the provider has the configuration of one that was
  there.
\<close>

lemma capReached_frame:
  assumes "capReached pid m"
    and "attemptsOf m' pid = attemptsOf m pid"
    and "\<And>e. e \<in> set (timers m') \<Longrightarrow> e \<in> set (timers m) \<or> timerProvider (snd e) \<noteq> pid"
    and "\<And>e. e \<in> set (sockets m') \<Longrightarrow> sockProvider (snd e) = pid \<Longrightarrow> sockState (snd e) \<noteq> CLOSED \<Longrightarrow>
           \<exists>e' \<in> set (sockets m). sockProvider (snd e') = pid \<and> sockState (snd e') \<noteq> CLOSED
                                    \<and> sockConfig (snd e') = sockConfig (snd e)"
  shows "capReached pid m'"
  unfolding capReached_iff
proof (rule conjI; intro ballI impI)
  fix e assume "e \<in> set (timers m')"
  then have "e \<in> set (timers m) \<or> timerProvider (snd e) \<noteq> pid"
    by (rule assms(3))
  with assms(1) show "timerProvider (snd e) \<noteq> pid"
    by (auto simp: capReached_iff)
next
  fix e assume e: "e \<in> set (sockets m')" "sockProvider (snd e) = pid \<and> sockState (snd e) \<noteq> CLOSED"
  with assms(4) obtain e' where e': "e' \<in> set (sockets m)" "sockProvider (snd e') = pid"
      "sockState (snd e') \<noteq> CLOSED" "sockConfig (snd e') = sockConfig (snd e)"
    by blast
  from assms(1) e'(1,2,3) have "maxReconnectAttempts (sockConfig (snd e')) \<noteq> Some 0
      \<and> configured (maxReconnectAttempts (sockConfig (snd e'))) 5 \<le> int (attemptsOf m pid)"
    by (auto simp: capReached_iff)
  with e'(4) assms(2)
  show "maxReconnectAttempts (sockConfig (snd e)) \<noteq> Some 0
      \<and> configured (maxReconnectAttempts (sockConfig (snd e))) 5 \<le> int (attemptsOf m' pid)"
    by simp
qed

lemma capReached_setSockState:
  assumes "capReached pid m" "map_of (sockets m) ws = Some sock" "sockState sock \<noteq> CLOSED \<or> st = CLOSED"
  shows "capReached pid (setSockState ws st m)"
proof (rule capReached_frame[OF assms(1)])
  show "attemptsOf (setSockState ws st m) pid = attemptsOf m pid"
    by (simp add: setSockState_def attemptsOf_def split: option.splits)
next
  fix e assume "e \<in> set (timers (setSockState ws st m))"
  then show "e \<in> set (timers m) \<or> timerProvider (snd e) \<noteq> pid"
    by (simp add: setSockState_def split: option.splits)
next
  fix e assume e: "e \<in> set (sockets (setSockState ws st m))" "sockProvider (snd e) = pid"
    "sockState (snd e) \<noteq> CLOSED"
  from e(1) assms(2) have "e = (ws, sock\<lparr>sockState := st\<rparr>) \<or> e \<in> set (sockets m)"
    using set_mapSet[of ws "sock\<lparr>sockState := st\<rparr>" "sockets m"]
    by (auto simp: setSockState_def)
  then show "\<exists>e' \<in> set (sockets m). sockProvider (snd e') = pid \<and> sockState (snd e') \<noteq> CLOSED
                                    \<and> sockConfig (snd e') = sockConfig (snd e)"
  proof
    assume eq: "e = (ws, sock\<lparr>sockState := st\<rparr>)"
    from assms(2) have "(ws, sock) \<in> set (sockets m)"
      by (rule map_of_SomeD)
    moreover from eq e(2,3) assms(3) have "sockProvider sock = pid \<and> sockState sock \<noteq> CLOSED"
      by auto
    ultimately show ?thesis using eq
      by (intro bexI[of _ "(ws, sock)"]) auto
  next
    assume "e \<in> set (sockets m)"
    with e(2,3) show ?thesis by blast
  qed
qed

lemma capReached_closeSocket: "capReached pid m \<Longrightarrow> capReached pid (closeSocket ws m)"
  by (auto simp: closeSocket_def intro: capReached_setSockState split: option.splits)

text \<open>Changes of the manager that the cap does not look at.\<close>

lemma capReached_fields:
  "capReached pid (m\<lparr>connections := cs\<rparr>) = capReached pid m"
  "capReached pid (m\<lparr>subscriptions := ss\<rparr>) = capReached pid m"
  "capReached pid (m\<lparr>handlers := hs\<rparr>) = capReached pid m"
  "capReached pid (m\<lparr>reconnectTimers := rts\<rparr>) = capReached pid m"
  "capReached pid (m\<lparr>sent := fs\<rparr>) = capReached pid m"
  "capReached pid (m\<lparr>delivered := ds\<rparr>) = capReached pid m"
  "capReached pid (m\<lparr>nextId := i\<rparr>) = capReached pid m"
  by (simp_all add: capReached_def attemptsOf_def)

lemma capReached_counter_set:
  "p \<noteq> pid \<Longrightarrow> capReached pid (m\<lparr>reconnectAttempts := mapSet p v (reconnectAttempts m)\<rparr>) = capReached pid m"
  by (simp add: capReached_def attemptsOf_def map_of_mapSet)

lemma capReached_counter_delete:
  "p \<noteq> pid \<Longrightarrow> capReached pid (m\<lparr>reconnectAttempts := mapDelete p (reconnectAttempts m)\<rparr>) = capReached pid m"
  by (simp add: capReached_def attemptsOf_def map_of_mapDelete)

lemma capReached_timer_delete:
  "capReached pid m \<Longrightarrow> capReached pid (m\<lparr>timers := mapDelete t (timers m)\<rparr>)"
  using set_mapDelete[of t "timers m"]
  by (auto simp: capReached_iff attemptsOf_def)

lemma capReached_timer_add:
  "timerProvider tm \<noteq> pid \<Longrightarrow> capReached pid m \<Longrightarrow> capReached pid (m\<lparr>timers := timers m @ [(t, tm)]\<rparr>)"
  by (auto simp: capReached_iff attemptsOf_def)

lemma capReached_socket_add:
  "sockProvider sock \<noteq> pid \<Longrightarrow> capReached pid m \<Longrightarrow> capReached pid (m\<lparr>sockets := sockets m @ [(ws, sock)]\<rparr>)"
  by (auto simp: capReached_iff attemptsOf_def)

lemma capReached_disconnect:
  assumes "p \<noteq> pid" "capReached pid m"
  shows "capReached pid (disconnect p m)"
proof -
  let ?m1 = "(case map_of (connections m) p of
                Some ws \<Rightarrow> (closeSocket ws m)\<lparr>connections := mapDelete p (connections m)\<rparr>
              | None \<Rightarrow> m)"
  let ?m2 = "(case map_of (reconnectTimers ?m1) p of
                Some t \<Rightarrow> ?m1\<lparr>timers := mapDelete t (timers ?m1),
                               reconnectTimers := mapDelete p (reconnectTimers ?m1)\<rparr>
              | None \<Rightarrow> ?m1)"
  have 1: "capReached pid ?m1"
    using assms(2) by (simp add: capReached_fields capReached_closeSocket split: option.splits)
  have 2: "capReached pid ?m2"
    using 1 capReached_timer_delete[OF 1] by (simp add: capReached_fields split: option.splits)
  have "disconnect p m = ?m2\<lparr>reconnectAttempts := mapDelete p (reconnectAttempts ?m2)\<rparr>"
    by (simp add: disconnect_def Let_def)
  with 2 assms(1) show ?thesis
    by (simp add: capReached_counter_delete)
qed

lemma capReached_connect:
  assumes "p \<noteq> pid" "capReached pid m"
  shows "capReached pid (snd (connect p c a m))"
proof -
  let ?m1 = "(if map_of (connections m) p \<noteq> None then disconnect p m else m)"
  have 1: "capReached pid ?m1"
    using assms by (simp add: capReached_disconnect)
  have "capReached pid (?m1\<lparr>sockets := sockets ?m1 @
            [(nextId ?m1, \<lparr>sockProvider = p, sockConfig = c, sockApiConfig = a, sockState = CONNECTING\<rparr>)]\<rparr>)"
    using assms(1) 1 by (intro capReached_socket_add) simp_all
  with 1 show ?thesis
    by (simp add: connect_def Let_def capReached_fields)
qed

lemma capReached_attemptReconnect_other:
  assumes "p \<noteq> pid" "capReached pid m"
  shows "capReached pid (attemptReconnect p c a m)"
  using assms capReached_timer_add[of _ pid m]
  by (simp add: attemptReconnect_def Let_def capReached_fields)

lemma attemptReconnect_capped:
  assumes "maxReconnectAttempts c \<noteq> Some 0" "configured (maxReconnectAttempts c) 5 \<le> int (attemptsOf m pid)"
  shows "attemptReconnect pid c a m = m"
  using assms by (simp add: attemptReconnect_def Let_def orDefault_configured)

lemma capReached_onclose:
  assumes "capReached pid m"
    and "sockProvider sock = pid \<Longrightarrow>
           maxReconnectAttempts (sockConfig sock) \<noteq> Some 0
           \<and> configured (maxReconnectAttempts (sockConfig sock)) 5 \<le> int (attemptsOf m pid)"
  shows "capReached pid (onclose sock closeCode m)"
proof (cases "sockProvider sock = pid")
  case True
  let ?m1 = "m\<lparr>connections := mapDelete pid (connections m)\<rparr>"
  have "attemptsOf ?m1 pid = attemptsOf m pid"
    by (simp add: attemptsOf_def)
  with assms(2)[OF True] have "attemptReconnect pid (sockConfig sock) (sockApiConfig sock) ?m1 = ?m1"
    by (intro attemptReconnect_capped) simp_all
  with True assms(1) show ?thesis
    by (simp add: onclose_def Let_def capReached_fields)
next
  case False
  with assms(1) show ?thesis
    by (simp add: onclose_def Let_def capReached_fields capReached_attemptReconnect_other)
qed

lemma capReached_sendSubscriptionMessage:
  "capReached pid (sendSubscriptionMessage ws p act syms m) = capReached pid m"
  by (simp add: sendSubscriptionMessage_def capReached_fields)

lemma capReached_onopen:
  assumes "sockProvider sock \<noteq> pid" "capReached pid m"
  shows "capReached pid (onopen ws sock m)"
  using assms
  by (simp add: onopen_def Let_def authenticateConnection_def capReached_fields
        capReached_counter_set capReached_sendSubscriptionMessage split: option.splits)

lemma capReached_handleMessage: "capReached pid (handleMessage p msg m) = capReached pid m"
  by (simp add: handleMessage_def capReached_fields split: option.splits)

lemma capReached_subscribe: "capReached pid (subscribe p syms m) = capReached pid m"
  by (simp add: subscribe_def Let_def capReached_fields capReached_sendSubscriptionMessage
        split: option.splits)

lemma capReached_unsubscribe: "capReached pid (unsubscribe p syms m) = capReached pid m"
  by (simp add: unsubscribe_def Let_def capReached_fields capReached_sendSubscriptionMessage
        split: option.splits)

lemma capReached_timerCallback:
  assumes "timerProvider tm \<noteq> pid" "capReached pid m"
  shows "capReached pid (timerCallback tm m)"
  using assms by (simp add: timerCallback_def capReached_connect capReached_counter_set)

text \<open>Every action that leaves the provider alone keeps the cap reached.\<close>

lemma capReached_step:
  assumes "capReached pid m" "leavesAlone pid m a"
  shows "capReached pid (step m a)"
proof (cases a)
  case (Connect p c api)
  with assms show ?thesis by (simp add: capReached_connect)
next
  case (Disconnect p)
  with assms show ?thesis by (simp add: capReached_disconnect)
next
  case (Subscribe p syms)
  with assms show ?thesis by (simp add: capReached_subscribe)
next
  case (Unsubscribe p syms)
  with assms show ?thesis by (simp add: capReached_unsubscribe)
next
  case (AddHandler p h)
  with assms show ?thesis by (simp add: addHandler_def Let_def capReached_fields)
next
  case (RemoveHandler p h)
  with assms show ?thesis by (simp add: removeHandler_def capReached_fields split: option.splits)
next
  case Cleanup
  with assms show ?thesis by simp
next
  case (SocketOpens ws)
  show ?thesis
  proof (cases "map_of (sockets m) ws")
    case None
    with SocketOpens assms show ?thesis by simp
  next
    case (Some sock)
    with SocketOpens assms(2) have other: "sockProvider sock \<noteq> pid" by simp
    show ?thesis
    proof (cases "sockState sock = CONNECTING")
      case True
      then have "capReached pid (setSockState ws OPEN m)"
        by (intro capReached_setSockState[OF assms(1) Some]) simp
      with other True Some SocketOpens show ?thesis
        by (simp add: capReached_onopen)
    next
      case False
      with Some SocketOpens assms(1) show ?thesis by simp
    qed
  qed
next
  case (SocketCloses ws closeCode)
  show ?thesis
  proof (cases "map_of (sockets m) ws")
    case None
    with SocketCloses assms show ?thesis by simp
  next
    case (Some sock)
    show ?thesis
    proof (cases "sockState sock = CLOSED")
      case True
      with Some SocketCloses assms(1) show ?thesis by simp
    next
      case False
      have 1: "capReached pid (setSockState ws CLOSED m)"
        by (intro capReached_setSockState[OF assms(1) Some]) simp
      have 2: "attemptsOf (setSockState ws CLOSED m) pid = attemptsOf m pid"
        by (simp add: setSockState_def attemptsOf_def split: option.splits)
      from Some have "(ws, sock) \<in> set (sockets m)"
        by (rule map_of_SomeD)
      with assms(1) False have 3: "sockProvider sock = pid \<Longrightarrow>
           maxReconnectAttempts (sockConfig sock) \<noteq> Some 0
           \<and> configured (maxReconnectAttempts (sockConfig sock)) 5 \<le> int (attemptsOf m pid)"
        by (auto simp: capReached_iff)
      have "capReached pid (onclose sock closeCode (setSockState ws CLOSED m))"
        using 1 3 by (intro capReached_onclose) (simp_all add: 2)
      with Some False SocketCloses show ?thesis by simp
    qed
  qed
next
  case (SocketErrors ws now)
  with assms(1) show ?thesis
    by (simp add: onerror_def capReached_handleMessage split: option.splits)
next
  case (FrameArrives ws parsed)
  with assms(1) show ?thesis
    by (simp add: onmessage_def capReached_handleMessage split: option.splits)
next
  case (TimerFires t)
  show ?thesis
  proof (cases "map_of (timers m) t")
    case None
    with TimerFires assms(1) show ?thesis by simp
  next
    case (Some tm)
    then have "(t, tm) \<in> set (timers m)"
      by (rule map_of_SomeD)
    with assms(1) have "timerProvider tm \<noteq> pid"
      by (auto simp: capReached_iff)
    with Some TimerFires assms(1) show ?thesis
      by (simp add: capReached_timerCallback capReached_timer_delete)
  qed
qed

lemma capReached_run:
  "capReached pid m \<Longrightarrow> leftAlone pid m as \<Longrightarrow> capReached pid (run m as)"
  unfolding run_def
  by (induction as arbitrary: m) (simp_all add: capReached_step)

subsubsection \<open>The plain run\<close>

lemma list_all_mapSet: "list_all P xs \<Longrightarrow> P (k, v) \<Longrightarrow> list_all P (mapSet k v xs)"
  by (induction xs) auto

lemma map_of_beyond: "list_all (\<lambda>e. fst e < b) xs \<Longrightarrow> b \<le> (k::nat) \<Longrightarrow> map_of xs k = None"
  by (induction xs) (auto dest: leD)

lemma plainState_start:
  assumes "\<not> r (url c)"
  shows "plainState r pid c a 0 (step (newManager r w) (Connect pid c a))"
  using assms by (simp add: plainState_def newManager_def connect_def Let_def attemptsOf_def)

lemma plainState_step:
  assumes st: "plainState r pid c a n m"
    and ok: "\<not> r (url c)" "maxReconnectAttempts c \<noteq> Some 0" "int n < configured (maxReconnectAttempts c) 5"
  shows "plainState r pid c a (Suc n) (step (step m (SocketCloses (2 * n) 1006)) (TimerFires (2 * n + 1)))"
proof -
  let ?sock = "\<lparr>sockProvider = pid, sockConfig = c, sockApiConfig = a, sockState = CONNECTING\<rparr>"
  let ?tm = "\<lparr>timerProvider = pid, timerConfig = c, timerApiConfig = a, timerAttempts = n,
              timerDelay = orDefault (reconnectInterval c) 5000 * 2 ^ n\<rparr>"
  let ?socks = "mapSet (2 * n) (?sock\<lparr>sockState := CLOSED\<rparr>) (sockets m)"
  from st have f: "timers m = []" "nextId m = 2 * n + 1" "attemptsOf m pid = n" "rejectsUrl m = r"
      "map_of (sockets m) (2 * n) = Some ?sock"
      "list_all (\<lambda>e. fst e < 2 * n + 1 \<and> sockProvider (snd e) = pid \<and> sockConfig (snd e) = c) (sockets m)"
    by (simp_all add: plainState_def)
  from ok(2,3) have lt: "int n < orDefault (maxReconnectAttempts c) 5"
    by (simp add: orDefault_configured)
  have m1: "step m (SocketCloses (2 * n) 1006) =
      m\<lparr>sockets := ?socks, connections := mapDelete pid (connections m),
        timers := [(2 * n + 1, ?tm)],
        reconnectTimers := mapSet pid (2 * n + 1) (reconnectTimers m),
        nextId := Suc (2 * n + 1)\<rparr>"
    using f lt by (simp add: onclose_def attemptReconnect_def Let_def setSockState_def attemptsOf_def)
  have all1: "list_all (\<lambda>e. fst e < 2 * n + 1 \<and> sockProvider (snd e) = pid \<and> sockConfig (snd e) = c) ?socks"
    using f(6) by (rule list_all_mapSet) simp
  then have "list_all (\<lambda>e. fst e < 2 * n + 2) ?socks"
    by (auto simp: list_all_iff)
  then have none: "map_of ?socks (2 * n + 2) = None"
    by (rule map_of_beyond) simp
  have m2: "step (step m (SocketCloses (2 * n) 1006)) (TimerFires (2 * n + 1)) =
      m\<lparr>sockets := ?socks @ [(2 * n + 2, ?sock)],
        connections := mapSet pid (2 * n + 2) (mapDelete pid (connections m)),
        timers := [],
        reconnectTimers := mapSet pid (2 * n + 1) (reconnectTimers m),
        reconnectAttempts := mapSet pid (n + 1) (reconnectAttempts m),
        nextId := 2 * n + 3\<rparr>"
    unfolding m1 using f ok(1)
    by (simp add: timerCallback_def connect_def Let_def mapDelete_def map_of_mapDelete[unfolded mapDelete_def])
  have all2: "list_all (\<lambda>e. fst e < 2 * Suc n + 1 \<and> sockProvider (snd e) = pid \<and> sockConfig (snd e) = c)
                (?socks @ [(2 * n + 2, ?sock)])"
    using all1 by (auto simp: list_all_iff)
  have look: "map_of (?socks @ [(2 * n + 2, ?sock)]) (2 * Suc n) = Some ?sock"
    using none by (simp add: map_add_def)
  show ?thesis
    unfolding m2 using all2 look f(4)
    by (simp add: plainState_def attemptsOf_def map_of_mapSet)
qed

lemma run_snoc2: "run m (as @ [x, y]) = step (step (run m as) x) y"
  by (simp add: run_def)

lemma plainState_run:
  assumes "\<not> r (url c)" "maxReconnectAttempts c \<noteq> Some 0"
  shows "int n \<le> configured (maxReconnectAttempts c) 5 \<Longrightarrow>
         plainState r pid c a n (run (newManager r w) (Connect pid c a # failedReconnects n))"
proof (induction n)
  case 0
  from plainState_start[where r = r and c = c, OF assms(1)] show ?case
    by (simp add: run_def)
next
  case (Suc n)
  then have "plainState r pid c a n (run (newManager r w) (Connect pid c a # failedReconnects n))"
    and "int n < configured (maxReconnectAttempts c) 5"
    by simp_all
  then have "plainState r pid c a (Suc n)
      (step (step (run (newManager r w) (Connect pid c a # failedReconnects n)) (SocketCloses (2 * n) 1006))
         (TimerFires (2 * n + 1)))"
    using assms by (intro plainState_step)
  then show ?case
    using run_snoc2[of "newManager r w" "Connect pid c a # failedReconnects n"]
    by simp
qed

text \<open>In the plain run, the close after \<open>n\<close> failed reconnects is scheduled with base\<open>\<times>2^n\<close>.\<close>

lemma plain_run_delay:
  assumes "\<not> r (url c)" "reconnectInterval c \<noteq> Some 0" "maxReconnectAttempts c \<noteq> Some 0"
    "int n < configured (maxReconnectAttempts c) 5"
  shows "map (\<lambda>t. timerDelay (snd t))
           (timers (run (newManager r w) (Connect pid c a # failedReconnects n @ [SocketCloses (2 * n) 1006])))
         = [configured (reconnectInterval c) 5000 * 2 ^ n]"
proof -
  let ?m = "run (newManager r w) (Connect pid c a # failedReconnects n)"
  let ?sock = "\<lparr>sockProvider = pid, sockConfig = c, sockApiConfig = a, sockState = CONNECTING\<rparr>"
  have "plainState r pid c a n ?m"
    using assms by (intro plainState_run) simp_all
  then have f: "timers ?m = []" "attemptsOf ?m pid = n" "map_of (sockets ?m) (2 * n) = Some ?sock"
    by (simp_all add: plainState_def)
  have "timers (step ?m (SocketCloses (2 * n) 1006)) =
          [(nextId ?m, \<lparr>timerProvider = pid, timerConfig = c, timerApiConfig = a, timerAttempts = n,
                         timerDelay = configured (reconnectInterval c) 5000 * 2 ^ n\<rparr>)]"
    using abnormal_close_timers[OF f(3), of 1006] assms(2,3,4) f(1,2)
    by (simp add: orDefault_configured)
  moreover have "run (newManager r w) (Connect pid c a # failedReconnects n @ [SocketCloses (2 * n) 1006])
                 = step ?m (SocketCloses (2 * n) 1006)"
    by (simp add: run_def)
  ultimately show ?thesis
    by simp
qed

text \<open>After as many failed reconnects as the cap allows, the cap is reached.\<close>

lemma plain_run_capReached:
  assumes "\<not> r (url c)" "maxReconnectAttempts c \<noteq> Some 0"
    "int n = configured (maxReconnectAttempts c) 5"
  shows "capReached pid (run (newManager r w) (Connect pid c a # failedReconnects n))"
proof -
  have "plainState r pid c a n (run (newManager r w) (Connect pid c a # failedReconnects n))"
    using assms by (intro plainState_run) simp_all
  with assms(2,3) show ?thesis
    by (auto simp: plainState_def capReached_def list_all_iff)
qed

text \<open>
  Claim C8 as stated fails in two places. A reconnect that reaches \<open>open\<close> resets the
  attempt counter, so the abnormal close that follows that reconnect is scheduled with
  base\<open>\<times>2^0\<close> again, not base\<open>\<times>2^1\<close>. And when the counter has reached the cap (here 3,
  after three failed reconnects), the transport of the last reconnect can still open: the
  counter is reset, and its abnormal close schedules a reconnect although no \<open>connect\<close> was
  called.
\<close>

theorem reconnect_backoff_counterexample:
  "map (\<lambda>t. timerDelay (snd t)) (timers (run freshManager
      [Connect ''finnhub'' sampleWsConfig configX, SocketOpens 0, SocketCloses 0 1006,
       TimerFires 1, SocketOpens 2, SocketCloses 2 1006])) = [1000 * 2 ^ 0]
   \<and> attemptsOf (run freshManager
      [Connect ''finnhub'' sampleWsConfig configX, SocketCloses 0 1006, TimerFires 1,
       SocketCloses 2 1006, TimerFires 3, SocketCloses 4 1006, TimerFires 5]) ''finnhub'' = 3
   \<and> maxReconnectAttempts sampleWsConfig = Some 3
   \<and> map (\<lambda>t. timerDelay (snd t)) (timers (run freshManager
      [Connect ''finnhub'' sampleWsConfig configX, SocketCloses 0 1006, TimerFires 1,
       SocketCloses 2 1006, TimerFires 3, SocketCloses 4 1006, TimerFires 5,
       SocketOpens 6, SocketCloses 6 1006])) = [1000 * 2 ^ 0]"
  by code_simp

text \<open>
  Claim C8, amended. Write base for \<open>reconnectInterval\<close> (5000 when it is absent), cap for
  \<open>maxReconnectAttempts\<close> (5 when it is absent) and attempts for the provider's attempt
  counter, which is 0 at first and which an open resets to 0; neither setting is configured
  as 0.

  Every abnormal close of a transport (a close code other than 1000) schedules exactly one
  reconnect, with delay base\<open>\<times>2^attempts\<close>, while attempts is below cap, and schedules
  nothing otherwise; the opening of a transport sets attempts to 0. In the plain run from a new manager, in which every transport closes
  abnormally without having opened, the close after \<open>n\<close> failed reconnects is therefore
  scheduled with base\<open>\<times>2^n\<close> as long as \<open>n\<close> is below cap: base\<open>\<times>2^0\<close> after the first
  abnormal close, base\<open>\<times>2^1\<close> after the second. After cap failed reconnects the cap is
  reached. Once the cap is reached and no reconnect timer of the provider is pending, no
  reconnect is scheduled for that provider, whatever happens (closes, errors, frames, timers
  of other providers, any call for another provider, subscriptions and handler
  registrations), until one of its transports opens or \<open>connect\<close>, \<open>disconnect\<close> or \<open>cleanup\<close>
  is called for it: the cap stays reached in every state of such a run, so in none of them
  a timer of the provider is pending.
\<close>

theorem reconnect_backoff:
  "(map_of (sockets m) ws = Some sock \<and> sockState sock \<noteq> CLOSED \<and> closeCode \<noteq> 1000
      \<and> reconnectInterval (sockConfig sock) \<noteq> Some 0 \<and> maxReconnectAttempts (sockConfig sock) \<noteq> Some 0 \<longrightarrow>
      timers (step m (SocketCloses ws closeCode)) =
        (if int (attemptsOf m (sockProvider sock)) < configured (maxReconnectAttempts (sockConfig sock)) 5
         then timers m @ [(nextId m, \<lparr>timerProvider = sockProvider sock, timerConfig = sockConfig sock,
                             timerApiConfig = sockApiConfig sock,
                             timerAttempts = attemptsOf m (sockProvider sock),
                             timerDelay = configured (reconnectInterval (sockConfig sock)) 5000
                                            * 2 ^ attemptsOf m (sockProvider sock)\<rparr>)]
         else timers m))
   \<and> (map_of (sockets m) ws = Some sock \<and> sockState sock = CONNECTING \<longrightarrow>
        attemptsOf (step m (SocketOpens ws)) (sockProvider sock) = 0)
   \<and> (\<not> r (url config) \<and> reconnectInterval config \<noteq> Some 0 \<and> maxReconnectAttempts config \<noteq> Some 0
        \<and> int n < configured (maxReconnectAttempts config) 5 \<longrightarrow>
        map (\<lambda>t. timerDelay (snd t))
          (timers (run (newManager r w)
             (Connect pid config api # failedReconnects n @ [SocketCloses (2 * n) 1006])))
          = [configured (reconnectInterval config) 5000 * 2 ^ n])
   \<and> (\<not> r (url config) \<and> maxReconnectAttempts config \<noteq> Some 0
        \<and> int n = configured (maxReconnectAttempts config) 5 \<longrightarrow>
        capReached pid (run (newManager r w) (Connect pid config api # failedReconnects n)))
   \<and> (capReached pid m \<and> leftAlone pid m as \<longrightarrow>
        capReached pid (run m as)
        \<and> filter (\<lambda>e. timerProvider (snd e) = pid) (timers (run m as)) = [])"
proof (intro conjI impI)
  assume a: "map_of (sockets m) ws = Some sock \<and> sockState sock \<noteq> CLOSED \<and> closeCode \<noteq> 1000
      \<and> reconnectInterval (sockConfig sock) \<noteq> Some 0 \<and> maxReconnectAttempts (sockConfig sock) \<noteq> Some 0"
  then have "map_of (sockets m) ws = Some sock" "sockState sock \<noteq> CLOSED" "closeCode \<noteq> 1000"
    by simp_all
  from abnormal_close_timers[OF this] a
  show "timers (step m (SocketCloses ws closeCode)) =
        (if int (attemptsOf m (sockProvider sock)) < configured (maxReconnectAttempts (sockConfig sock)) 5
         then timers m @ [(nextId m, \<lparr>timerProvider = sockProvider sock, timerConfig = sockConfig sock,
                             timerApiConfig = sockApiConfig sock,
                             timerAttempts = attemptsOf m (sockProvider sock),
                             timerDelay = configured (reconnectInterval (sockConfig sock)) 5000
                                            * 2 ^ attemptsOf m (sockProvider sock)\<rparr>)]
         else timers m)"
    by (simp add: orDefault_configured)
next
  assume a: "map_of (sockets m) ws = Some sock \<and> sockState sock = CONNECTING"
  show "attemptsOf (step m (SocketOpens ws)) (sockProvider sock) = 0"
    by (rule open_resets_counter[OF a[THEN conjunct1] a[THEN conjunct2]])
next
  assume "\<not> r (url config) \<and> reconnectInterval config \<noteq> Some 0 \<and> maxReconnectAttempts config \<noteq> Some 0
        \<and> int n < configured (maxReconnectAttempts config) 5"
  then show "map (\<lambda>t. timerDelay (snd t))
          (timers (run (newManager r w)
             (Connect pid config api # failedReconnects n @ [SocketCloses (2 * n) 1006])))
          = [configured (reconnectInterval config) 5000 * 2 ^ n]"
    by (intro plain_run_delay) simp_all
next
  assume "\<not> r (url config) \<and> maxReconnectAttempts config \<noteq> Some 0
        \<and> int n = configured (maxReconnectAttempts config) 5"
  then show "capReached pid (run (newManager r w) (Connect pid config api # failedReconnects n))"
    by (intro plain_run_capReached) simp_all
next
  assume "capReached pid m \<and> leftAlone pid m as"
  then show "capReached pid (run m as)"
    by (simp add: capReached_run)
next
  assume "capReached pid m \<and> leftAlone pid m as"
  then have "capReached pid (run m as)"
    by (simp add: capReached_run)
  then show "filter (\<lambda>e. timerProvider (snd e) = pid) (timers (run m as)) = []"
    by (auto simp: capReached_iff filter_empty_conv)
qed

theorem reconnect_backoff_witness:
  "timers (step (run freshManager [Connect ''finnhub'' sampleWsConfig configX]) (SocketCloses 0 1006))
     = [(1, \<lparr>timerProvider = ''finnhub'', timerConfig = sampleWsConfig, timerApiConfig = configX,
             timerAttempts = 0, timerDelay = 1000\<rparr>)]
   \<and> attemptsOf (step (run freshManager
         [Connect ''finnhub'' sampleWsConfig configX, SocketCloses 0 1006, TimerFires 1])
         (SocketOpens 2)) ''finnhub'' = 0
   \<and> map (\<lambda>t. timerDelay (snd t)) (timers (run freshManager
         [Connect ''finnhub'' sampleWsConfig configX, SocketCloses 0 1006, TimerFires 1,
          SocketCloses 2 1006, TimerFires 3, SocketCloses 4 1006])) = [4000]
   \<and> filter (\<lambda>e. timerProvider (snd e) = ''finnhub'') (timers (run (run freshManager
         [Connect ''finnhub'' sampleWsConfig configX, SocketCloses 0 1006, TimerFires 1,
          SocketCloses 2 1006, TimerFires 3, SocketCloses 4 1006, TimerFires 5])
         [SocketCloses 6 1006, SocketErrors 6 0, TimerFires 5, SocketCloses 6 1006,
          Subscribe ''finnhub'' [''aapl''], AddHandler ''finnhub'' 7])) = []"
proof -
  let ?sock = "\<lparr>sockProvider = ''finnhub'', sockConfig = sampleWsConfig, sockApiConfig = configX,
                sockState = CONNECTING\<rparr>"
  let ?m1 = "run freshManager [Connect ''finnhub'' sampleWsConfig configX]"
  let ?as = "[SocketCloses 6 1006, SocketErrors 6 0, TimerFires 5, SocketCloses 6 1006,
              Subscribe ''finnhub'' [''aapl''], AddHandler ''finnhub'' 7]"
  have cfg: "reconnectInterval sampleWsConfig \<noteq> Some 0" "maxReconnectAttempts sampleWsConfig \<noteq> Some 0"
      "configured (reconnectInterval sampleWsConfig) 5000 = 1000"
      "configured (maxReconnectAttempts sampleWsConfig) 5 = 3"
    by (simp_all add: sampleWsConfig_def configured_def)
  have f2: "failedReconnects 2 = [SocketCloses 0 1006, TimerFires 1, SocketCloses 2 1006, TimerFires 3]"
    and f3: "failedReconnects 3 = [SocketCloses 0 1006, TimerFires 1, SocketCloses 2 1006, TimerFires 3,
                                   SocketCloses 4 1006, TimerFires 5]"
    by (simp_all add: eval_nat_numeral)
  have h1: "map_of (sockets ?m1) 0 = Some ?sock \<and> sockState ?sock \<noteq> CLOSED \<and> (1006::int) \<noteq> 1000
      \<and> reconnectInterval (sockConfig ?sock) \<noteq> Some 0 \<and> maxReconnectAttempts (sockConfig ?sock) \<noteq> Some 0"
    by code_simp
  have t1: "timers ?m1 = []" "nextId ?m1 = 1" "attemptsOf ?m1 ''finnhub'' = 0"
    by code_simp+
  have below: "int (attemptsOf ?m1 (sockProvider ?sock)) < configured (maxReconnectAttempts (sockConfig ?sock)) 5"
    by (simp add: t1 cfg)
  have scheduled: "timers ?m1 @ [(nextId ?m1, \<lparr>timerProvider = sockProvider ?sock, timerConfig = sockConfig ?sock,
                             timerApiConfig = sockApiConfig ?sock,
                             timerAttempts = attemptsOf ?m1 (sockProvider ?sock),
                             timerDelay = configured (reconnectInterval (sockConfig ?sock)) 5000
                                            * 2 ^ attemptsOf ?m1 (sockProvider ?sock)\<rparr>)]
     = [(1, \<lparr>timerProvider = ''finnhub'', timerConfig = sampleWsConfig, timerApiConfig = configX,
             timerAttempts = 0, timerDelay = 1000\<rparr>)]"
    by (simp add: t1 cfg)
  have "timers (step ?m1 (SocketCloses 0 1006)) =
        (if int (attemptsOf ?m1 (sockProvider ?sock)) < configured (maxReconnectAttempts (sockConfig ?sock)) 5
         then timers ?m1 @ [(nextId ?m1, \<lparr>timerProvider = sockProvider ?sock, timerConfig = sockConfig ?sock,
                             timerApiConfig = sockApiConfig ?sock,
                             timerAttempts = attemptsOf ?m1 (sockProvider ?sock),
                             timerDelay = configured (reconnectInterval (sockConfig ?sock)) 5000
                                            * 2 ^ attemptsOf ?m1 (sockProvider ?sock)\<rparr>)]
         else timers ?m1)"
    by (rule reconnect_backoff[where m = ?m1 and ws = 0 and sock = ?sock and closeCode = 1006,
                                THEN conjunct1, THEN mp, OF h1])
  then have c1: "timers (step ?m1 (SocketCloses 0 1006))
     = [(1, \<lparr>timerProvider = ''finnhub'', timerConfig = sampleWsConfig, timerApiConfig = configX,
             timerAttempts = 0, timerDelay = 1000\<rparr>)]"
    by (simp only: below if_True scheduled)
  let ?m2 = "run freshManager [Connect ''finnhub'' sampleWsConfig configX, SocketCloses 0 1006, TimerFires 1]"
  have h0: "map_of (sockets ?m2) 2 = Some ?sock \<and> sockState ?sock = CONNECTING"
    by code_simp
  have "attemptsOf (step ?m2 (SocketOpens 2)) (sockProvider ?sock) = 0"
    by (rule reconnect_backoff[where m = ?m2 and ws = 2 and sock = ?sock,
                                THEN conjunct2, THEN conjunct1, THEN mp, OF h0])
  then have c0: "attemptsOf (step ?m2 (SocketOpens 2)) ''finnhub'' = 0"
    by (simp only: socket.select_convs)
  have h2: "\<not> (\<lambda>u. False) (url sampleWsConfig) \<and> reconnectInterval sampleWsConfig \<noteq> Some 0
        \<and> maxReconnectAttempts sampleWsConfig \<noteq> Some 0
        \<and> int 2 < configured (maxReconnectAttempts sampleWsConfig) 5"
    by (simp add: cfg)
  have "map (\<lambda>t. timerDelay (snd t))
          (timers (run (newManager (\<lambda>u. False) keepWide)
             (Connect ''finnhub'' sampleWsConfig configX # failedReconnects 2 @ [SocketCloses (2 * 2) 1006])))
          = [configured (reconnectInterval sampleWsConfig) 5000 * 2 ^ 2]"
    by (rule reconnect_backoff[where r = "\<lambda>u. False" and w = keepWide and config = sampleWsConfig
                                 and n = 2 and pid = "''finnhub''" and api = configX,
                                THEN conjunct2, THEN conjunct2, THEN conjunct1, THEN mp, OF h2])
  then have c2: "map (\<lambda>t. timerDelay (snd t)) (timers (run freshManager
         [Connect ''finnhub'' sampleWsConfig configX, SocketCloses 0 1006, TimerFires 1,
          SocketCloses 2 1006, TimerFires 3, SocketCloses 4 1006])) = [4000]"
    by (simp add: freshManager_def f2 cfg)
  have h3: "\<not> (\<lambda>u. False) (url sampleWsConfig) \<and> maxReconnectAttempts sampleWsConfig \<noteq> Some 0
        \<and> int 3 = configured (maxReconnectAttempts sampleWsConfig) 5"
    by (simp add: cfg)
  have "capReached ''finnhub'' (run (newManager (\<lambda>u. False) keepWide)
          (Connect ''finnhub'' sampleWsConfig configX # failedReconnects 3))"
    by (rule reconnect_backoff[where r = "\<lambda>u. False" and w = keepWide and config = sampleWsConfig
                                 and n = 3 and pid = "''finnhub''" and api = configX,
                                THEN conjunct2, THEN conjunct2, THEN conjunct2, THEN conjunct1, THEN mp, OF h3])
  then have cap: "capReached ''finnhub'' (run freshManager
         [Connect ''finnhub'' sampleWsConfig configX, SocketCloses 0 1006, TimerFires 1,
          SocketCloses 2 1006, TimerFires 3, SocketCloses 4 1006, TimerFires 5])"
    by (simp add: freshManager_def f3)
  have alone: "leftAlone ''finnhub'' (run freshManager
         [Connect ''finnhub'' sampleWsConfig configX, SocketCloses 0 1006, TimerFires 1,
          SocketCloses 2 1006, TimerFires 3, SocketCloses 4 1006, TimerFires 5]) ?as"
    by code_simp
  have c3: "filter (\<lambda>e. timerProvider (snd e) = ''finnhub'') (timers (run (run freshManager
         [Connect ''finnhub'' sampleWsConfig configX, SocketCloses 0 1006, TimerFires 1,
          SocketCloses 2 1006, TimerFires 3, SocketCloses 4 1006, TimerFires 5]) ?as)) = []"
    by (rule reconnect_backoff[where pid = "''finnhub''" and as = ?as,
                                THEN conjunct2, THEN conjunct2, THEN conjunct2, THEN conjunct2, THEN mp,
                                OF conjI[OF cap alone], THEN conjunct2])
  show ?thesis
    by (rule conjI[OF c1 conjI[OF c0 conjI[OF c2 c3]]])
qed
section \<open>Properties of the built-in adapters\<close>

subsection \<open>getQuote\<close>

lemma fieldOpt_field: "field v k = Inr x \<Longrightarrow> fieldOpt v k = x"
  by (simp add: fieldOpt_def)

text \<open>
  What a successful quote holds: the currency of each adapter, and as symbol the symbol of
  the request in upper case (Finnhub) or the symbol field of the provider's answer as it is
  (Alpha Vantage, Indian API).
\<close>

lemma finnhub_quote:
  assumes "finnhubQuoteResult wide req f = Success q"
  shows "quoteCurrency q = ''USD'' \<and> quoteSymbol q = Val (JStr (toUpperCase wide (symbol req)))"
  using assms
  by (auto simp: finnhubQuoteResult_def split: fetched.splits option.splits sum.splits if_splits)

lemma alphaVantage_quote:
  assumes "alphaVantageQuoteResult f = Success q"
  shows "quoteCurrency q = ''USD''
         \<and> quoteSymbol q = fieldOpt (fieldOpt (bodyOf f) ''Global Quote'') ''01. symbol''"
  using assms
  by (auto simp: alphaVantageQuoteResult_def bodyOf_def Let_def
           split: fetched.splits option.splits sum.splits if_splits jsval.splits json.splits)

lemma indianApi_quote:
  assumes "indianApiQuoteResult wide req f = Success q"
  shows "quoteCurrency q = ''INR'' \<and> quoteSymbol q = fieldOpt (bodyOf f) ''tickerId''"
  using assms
  by (auto simp: indianApiQuoteResult_def bodyOf_def Let_def orElse_def fieldOpt_field
           split: fetched.splits option.splits sum.splits if_splits)

lemma getQuote_currency:
  "(fst (finnhubGetQuote wide net req key) = Success q \<longrightarrow> quoteCurrency q = ''USD'')
   \<and> (fst (alphaVantageGetQuote wide net req key) = Success q \<longrightarrow> quoteCurrency q = ''USD'')
   \<and> (fst (indianApiGetQuote wide net req key) = Success q \<longrightarrow> quoteCurrency q = ''INR'')"
  by (auto simp: finnhubGetQuote_def alphaVantageGetQuote_def indianApiGetQuote_def
        dest: finnhub_quote alphaVantage_quote indianApi_quote)

text \<open>
  Claim C3 says that every successful quote of a built-in adapter has its symbol in upper
  case, whatever the casing in the request and in the provider's answer. Alpha Vantage and
  the Indian API do not do so: they copy the symbol of the answer (\<open>01. symbol\<close>,
  \<open>tickerId\<close>) into the quote as it is. For the request symbol \<open>aapl\<close> and an Alpha Vantage
  answer whose symbol is \<open>aapl\<close>, the quote is a success with symbol \<open>aapl\<close>, not \<open>AAPL\<close>; for
  \<open>reliance\<close> and an Indian API answer with ticker \<open>reliance\<close>, the symbol is \<open>reliance\<close>, not
  \<open>RELIANCE\<close>. Finnhub, for the same request, gives \<open>AAPL\<close>.
\<close>

theorem getQuote_symbol_not_upper_cased:
  "map_outcome quoteSymbol
     (fst (alphaVantageGetQuote wide (answering lowerCaseGlobalQuote) \<lparr>symbol = ''aapl''\<rparr> ''k''))
     = Success (Val (JStr ''aapl''))
   \<and> toUpperCase wide ''aapl'' = ''AAPL''
   \<and> map_outcome quoteSymbol
       (fst (indianApiGetQuote wide (answering lowerCaseTicker) \<lparr>symbol = ''reliance''\<rparr> ''k''))
     = Success (Val (JStr ''reliance''))
   \<and> toUpperCase wide ''reliance'' = ''RELIANCE''
   \<and> map_outcome quoteSymbol
       (fst (finnhubGetQuote wide (answering finnhubAnswer) \<lparr>symbol = ''aapl''\<rparr> ''k''))
     = Success (Val (JStr ''AAPL''))"
  by code_simp

subsection \<open>getHistoricalData\<close>

lemma tableLookup_absent:
  "k \<notin> fst ` set table \<Longrightarrow> k \<notin> set objectPrototypeKeys \<Longrightarrow> tableLookup table k = Undefined"
  by (simp add: tableLookup_def map_of_eq_None_iff[THEN iffD2])

text \<open>
  Claim C4 as stated fails: \<open>constructor\<close> is in no adapter's table, but indexing the table
  with it gives the function that every object inherits, which is truthy; the interval is
  not rejected and each adapter goes on to make its request.
\<close>

theorem unsupported_interval_counterexample:
  "''constructor'' \<notin> fst ` set resolutionMap
   \<and> length (snd (finnhubGetHistoricalData keepWide unreachable giveUp 0 (historyRequest ''constructor'') ''k'')) = 1
   \<and> ''constructor'' \<notin> fst ` set functionMap
   \<and> length (snd (alphaVantageGetHistoricalData keepWide unreachable giveUp (historyRequest ''constructor'') ''k'')) = 1
   \<and> ''constructor'' \<notin> fst ` set intervalMap
   \<and> length (snd (indianApiGetHistoricalData keepWide unreachable giveUp (historyRequest ''constructor'') ''k'')) = 1"
  by code_simp

text \<open>
  Claim C4, amended. For every interval that is absent from an adapter's table and is not
  the name of a member inherited from \<open>Object.prototype\<close> (so for \<open>2day\<close> and \<open>4hour\<close>),
  \<open>getHistoricalData\<close> of that adapter returns the failure
  \<open>Unsupported interval: \<close> followed by the interval, and makes no request.
\<close>

theorem unsupported_interval_rejected_locally:
  "(interval req \<notin> fst ` set resolutionMap \<and> interval req \<notin> set objectPrototypeKeys \<longrightarrow>
      finnhubGetHistoricalData wide net after now req key
        = (Failure (Text (''Unsupported interval: '' @ interval req)), []))
   \<and> (interval req \<notin> fst ` set functionMap \<and> interval req \<notin> set objectPrototypeKeys \<longrightarrow>
      alphaVantageGetHistoricalData wide net after req key
        = (Failure (Text (''Unsupported interval: '' @ interval req)), []))
   \<and> (interval req \<notin> fst ` set intervalMap \<and> interval req \<notin> set objectPrototypeKeys \<longrightarrow>
      indianApiGetHistoricalData wide net after req key
        = (Failure (Text (''Unsupported interval: '' @ interval req)), []))"
  by (simp add: finnhubGetHistoricalData_def alphaVantageGetHistoricalData_def
        indianApiGetHistoricalData_def tableLookup_absent unsupportedInterval_def Let_def)

theorem unsupported_interval_rejected_locally_witness:
  "finnhubGetHistoricalData keepWide unreachable giveUp 0 (historyRequest ''2day'') ''k''
     = (Failure (Text ''Unsupported interval: 2day''), [])
   \<and> alphaVantageGetHistoricalData keepWide unreachable giveUp (historyRequest ''4hour'') ''k''
     = (Failure (Text ''Unsupported interval: 4hour''), [])
   \<and> indianApiGetHistoricalData keepWide unreachable giveUp (historyRequest ''2day'') ''k''
     = (Failure (Text ''Unsupported interval: 2day''), [])"
proof -
  have h1: "interval (historyRequest ''2day'') \<notin> fst ` set resolutionMap
            \<and> interval (historyRequest ''2day'') \<notin> set objectPrototypeKeys"
    by code_simp
  have h2: "interval (historyRequest ''4hour'') \<notin> fst ` set functionMap
            \<and> interval (historyRequest ''4hour'') \<notin> set objectPrototypeKeys"
    by code_simp
  have h3: "interval (historyRequest ''2day'') \<notin> fst ` set intervalMap
            \<and> interval (historyRequest ''2day'') \<notin> set objectPrototypeKeys"
    by code_simp
  have i2: "interval (historyRequest ''2day'') = ''2day''" and i4: "interval (historyRequest ''4hour'') = ''4hour''"
    by (simp_all add: historyRequest_def)
  have c1: "finnhubGetHistoricalData keepWide unreachable giveUp 0 (historyRequest ''2day'') ''k''
        = (Failure (Text (''Unsupported interval: '' @ interval (historyRequest ''2day''))), [])"
    by (rule unsupported_interval_rejected_locally
               [where req = "historyRequest ''2day''" and wide = keepWide and net = unreachable
                  and after = giveUp and now = 0 and key = "''k''", THEN conjunct1, THEN mp, OF h1])
  have c2: "alphaVantageGetHistoricalData keepWide unreachable giveUp (historyRequest ''4hour'') ''k''
        = (Failure (Text (''Unsupported interval: '' @ interval (historyRequest ''4hour''))), [])"
    by (rule unsupported_interval_rejected_locally
               [where req = "historyRequest ''4hour''" and wide = keepWide and net = unreachable
                  and after = giveUp and key = "''k''", THEN conjunct2, THEN conjunct1, THEN mp, OF h2])
  have c3: "indianApiGetHistoricalData keepWide unreachable giveUp (historyRequest ''2day'') ''k''
        = (Failure (Text (''Unsupported interval: '' @ interval (historyRequest ''2day''))), [])"
    by (rule unsupported_interval_rejected_locally
               [where req = "historyRequest ''2day''" and wide = keepWide and net = unreachable
                  and after = giveUp and key = "''k''", THEN conjunct2, THEN conjunct2, THEN mp, OF h3])
  from c1 c2 c3 show ?thesis
    by (simp add: i2 i4)
qed

section \<open>Properties of the structure detector\<close>

lemma nameCandidates_symbol: "nameCandidates ''symbol'' =
  [\<lparr>candTarget = ''symbol'', candConfidence = 9 / 10, candWhy = NameMatches ''symbol'' ''symbol''\<rparr>,
   \<lparr>candTarget = ''low'', candConfidence = 7 / 10, candWhy = NameMatches ''symbol'' ''l''\<rparr>,
   \<lparr>candTarget = ''open'', candConfidence = 7 / 10, candWhy = NameMatches ''symbol'' ''o''\<rparr>]"
  by code_simp

lemma nameCandidates_price: "nameCandidates ''price'' =
  [\<lparr>candTarget = ''price'', candConfidence = 9 / 10, candWhy = NameMatches ''price'' ''price''\<rparr>,
   \<lparr>candTarget = ''close'', candConfidence = 7 / 10, candWhy = NameMatches ''price'' ''c''\<rparr>]"
  by code_simp

lemma nameCandidates_timestamp: "nameCandidates ''timestamp'' =
  [\<lparr>candTarget = ''publishedAt'', candConfidence = 9 / 10, candWhy = NameMatches ''timestamp'' ''timestamp''\<rparr>,
   \<lparr>candTarget = ''timestamp'', candConfidence = 9 / 10, candWhy = NameMatches ''timestamp'' ''timestamp''\<rparr>,
   \<lparr>candTarget = ''timestamp'', candConfidence = 7 / 10, candWhy = NameMatches ''timestamp'' ''time''\<rparr>,
   \<lparr>candTarget = ''timestamp'', candConfidence = 7 / 10, candWhy = NameMatches ''timestamp'' ''t''\<rparr>]"
  by code_simp

lemma patterns_AAPL: "symbolPattern ''AAPL''" "\<not> urlPattern ''AAPL''" "\<not> datePattern ''AAPL''"
  by code_simp+

lemma patterns_timestamp:
  "\<not> symbolPattern ''2024-01-05T00:00:00Z''" "\<not> urlPattern ''2024-01-05T00:00:00Z''"
  "datePattern ''2024-01-05T00:00:00Z''"
  by code_simp+

lemma samplePrice_bounds: "0 < samplePrice" "samplePrice < 10000" "\<not> 1000 < samplePrice"
  by (simp_all add: samplePrice_def)

lemma findPossibleMappings_symbol: "findPossibleMappings eng ''symbol'' (Val (JStr ''AAPL'')) =
  [\<lparr>candTarget = ''symbol'', candConfidence = 9 / 10, candWhy = NameMatches ''symbol'' ''symbol''\<rparr>,
   \<lparr>candTarget = ''symbol'', candConfidence = 8 / 10, candWhy = SymbolValue ''AAPL''\<rparr>,
   \<lparr>candTarget = ''low'', candConfidence = 7 / 10, candWhy = NameMatches ''symbol'' ''l''\<rparr>]"
  by (simp add: findPossibleMappings_def nameCandidates_symbol valueCandidates_def patterns_AAPL)

text \<open>Whether the third candidate of the price is there depends on how the runtime prints 187.32.\<close>

lemma findPossibleMappings_price: "findPossibleMappings eng ''price'' (Val (JNum samplePrice)) =
  [\<lparr>candTarget = ''price'', candConfidence = 9 / 10, candWhy = NameMatches ''price'' ''price''\<rparr>,
   \<lparr>candTarget = ''close'', candConfidence = 7 / 10, candWhy = NameMatches ''price'' ''c''\<rparr>]
  @ (if CHR ''.'' \<in> set (numberToString eng samplePrice)
     then [\<lparr>candTarget = ''price'', candConfidence = 6 / 10, candWhy = PriceValue samplePrice\<rparr>] else [])"
  by (simp add: findPossibleMappings_def nameCandidates_price valueCandidates_def samplePrice_bounds)

lemma findPossibleMappings_timestamp:
  "findPossibleMappings eng ''timestamp'' (Val (JStr ''2024-01-05T00:00:00Z'')) =
  [\<lparr>candTarget = ''publishedAt'', candConfidence = 9 / 10, candWhy = NameMatches ''timestamp'' ''timestamp''\<rparr>,
   \<lparr>candTarget = ''timestamp'', candConfidence = 9 / 10, candWhy = NameMatches ''timestamp'' ''timestamp''\<rparr>,
   \<lparr>candTarget = ''timestamp'', candConfidence = 7 / 10, candWhy = NameMatches ''timestamp'' ''time''\<rparr>]"
  by (simp add: findPossibleMappings_def nameCandidates_timestamp valueCandidates_def patterns_timestamp)

lemma extractFields_sample: "extractFields eng sampleQuote =
  [\<lparr>path = ''symbol'', fieldValue = Val (JStr ''AAPL''),
    fieldType = (if dateParses eng ''AAPL'' then ''date'' else ''string''),
    possibleMappings = findPossibleMappings eng ''symbol'' (Val (JStr ''AAPL''))\<rparr>,
   \<lparr>path = ''price'', fieldValue = Val (JNum samplePrice), fieldType = ''number'',
    possibleMappings = findPossibleMappings eng ''price'' (Val (JNum samplePrice))\<rparr>,
   \<lparr>path = ''timestamp'', fieldValue = Val (JStr ''2024-01-05T00:00:00Z''), fieldType = ''date'',
    possibleMappings = findPossibleMappings eng ''timestamp'' (Val (JStr ''2024-01-05T00:00:00Z''))\<rparr>]"
  by (simp add: extractFields_def sampleQuote_def leaf_def getValueType_def patterns_AAPL patterns_timestamp)

lemma bestMatch_symbol:
  "map_option (\<lambda>cf. (candConfidence (fst cf), path (snd cf)))
     (bestMatch (extractFields eng sampleQuote) [] ''symbol'') = Some (9 / 10, ''symbol'')"
  by (simp add: extractFields_sample findPossibleMappings_symbol findPossibleMappings_price
        findPossibleMappings_timestamp bestMatch_def)

lemma bestMatch_price:
  "map_option (\<lambda>cf. (candConfidence (fst cf), path (snd cf)))
     (bestMatch (extractFields eng sampleQuote) [''symbol''] ''price'') = Some (9 / 10, ''price'')"
  by (simp add: extractFields_sample findPossibleMappings_symbol findPossibleMappings_price
        findPossibleMappings_timestamp bestMatch_def)

lemma generateMappings_sample:
  "map (\<lambda>m. (targetField m, sourceField m, required m))
     (generateMappings (extractFields eng sampleQuote) ''quote'')
     = [(''symbol'', ''symbol'', Some True), (''price'', ''price'', Some True),
        (''timestamp'', ''timestamp'', Some True)]"
  by (simp add: extractFields_sample findPossibleMappings_symbol findPossibleMappings_price
        findPossibleMappings_timestamp bestMatch_def generateMappings_def getRequiredFields_def
        isFieldRequired_def setAdd_def)

lemma calculateConfidence_all_required:
  assumes "map required ms = [Some True, Some True, Some True]"
  shows "calculateConfidence ms = ''high''"
proof -
  from assms obtain a b c where ms: "ms = [a, b, c]"
    by (auto simp: map_eq_Cons_conv)
  with assms show ?thesis by (simp add: calculateConfidence_def)
qed

text \<open>
  Claim C9. On the sample \<open>{symbol: "AAPL", price: 187.32, timestamp: "2024-01-05T00:00:00Z"}\<close>
  with expected kind \<open>quote\<close>, whatever the runtime's \<open>Date.parse\<close> and number printing do,
  the suggested mappings are those of \<open>symbol\<close>, \<open>price\<close> and \<open>timestamp\<close>, each from the
  field of the same name; the candidate picked for \<open>symbol\<close> and the one picked for \<open>price\<close>
  (once the path \<open>symbol\<close> is used) have confidence 0.9, which is at least 0.5; and the
  overall confidence is \<open>high\<close>.
\<close>

theorem detectStructure_sample_quote:
  "map (\<lambda>m. (targetField m, sourceField m)) (suggestedMappings (detectStructure eng ep sampleQuote ''quote''))
     = [(''symbol'', ''symbol''), (''price'', ''price''), (''timestamp'', ''timestamp'')]
   \<and> map_option (\<lambda>cf. (candConfidence (fst cf), path (snd cf)))
       (bestMatch (detectedFields (detectStructure eng ep sampleQuote ''quote'')) [] ''symbol'')
       = Some (9 / 10, ''symbol'')
   \<and> map_option (\<lambda>cf. (candConfidence (fst cf), path (snd cf)))
       (bestMatch (detectedFields (detectStructure eng ep sampleQuote ''quote'')) [''symbol''] ''price'')
       = Some (9 / 10, ''price'')
   \<and> (5 / 10 :: rat) \<le> 9 / 10
   \<and> confidence (detectStructure eng ep sampleQuote ''quote'') = ''high''
   \<and> confidence (detectStructure eng ep sampleQuote ''quote'') \<in> {''medium'', ''high''}"
proof -
  let ?ms = "generateMappings (extractFields eng sampleQuote) ''quote''"
  have g: "map (\<lambda>m. (targetField m, sourceField m, required m)) ?ms
     = [(''symbol'', ''symbol'', Some True), (''price'', ''price'', Some True),
        (''timestamp'', ''timestamp'', Some True)]"
    by (rule generateMappings_sample)
  have "map (\<lambda>m. (targetField m, sourceField m)) ?ms
          = map (\<lambda>t. (fst t, fst (snd t))) (map (\<lambda>m. (targetField m, sourceField m, required m)) ?ms)"
    by simp
  then have m1: "map (\<lambda>m. (targetField m, sourceField m)) ?ms
     = [(''symbol'', ''symbol''), (''price'', ''price''), (''timestamp'', ''timestamp'')]"
    by (simp only: g) simp
  have "map required ?ms = map (\<lambda>t. snd (snd t)) (map (\<lambda>m. (targetField m, sourceField m, required m)) ?ms)"
    by simp
  then have "map required ?ms = [Some True, Some True, Some True]"
    by (simp only: g) simp
  then have c: "calculateConfidence ?ms = ''high''"
    by (rule calculateConfidence_all_required)
  from m1 c bestMatch_symbol[of eng] bestMatch_price[of eng] show ?thesis
    by (simp add: detectStructure_def Let_def)
qed

theorem detectStructure_sample_quote_witness:
  "map (\<lambda>m. (targetField m, sourceField m))
     (suggestedMappings
        (detectStructure \<lparr>numberToString = (\<lambda>n. ''187.32''), dateParses = (\<lambda>s. False)\<rparr>
           ''/quote'' sampleQuote ''quote''))
     = [(''symbol'', ''symbol''), (''price'', ''price''), (''timestamp'', ''timestamp'')]
   \<and> confidence
       (detectStructure \<lparr>numberToString = (\<lambda>n. ''187.32''), dateParses = (\<lambda>s. False)\<rparr>
          ''/quote'' sampleQuote ''quote'') = ''high''"
  using detectStructure_sample_quote
          [of "\<lparr>numberToString = (\<lambda>n. ''187.32''), dateParses = (\<lambda>s. False)\<rparr>" "''/quote''"]
  by blast


end
